theory Spec2Isabelle
  imports
    Complex_Main
    "HOL-Library.AList"
    "HOL-Library.Char_ord"
    "HOL-Library.List_Lexorder"
    "HOL-Library.Product_Lexorder"
begin

section \<open>Data model\<close>

text \<open>
  A calendar date is its day number, a timestamp (pandas \<open>datetime64[ns]\<close>) its number of
  nanoseconds since the epoch. A missing or unparseable timestamp (\<open>NaT\<close>) is \<open>None\<close>.
\<close>

type_synonym date = int
type_synonym timestamp = int

text \<open>
  Modelled from the spec: \<open>schema.sql\<close> is not part of the sources, so the columns of the
  tables \<open>admissions\<close> and \<open>bed_capacity\<close> are the ones the data model of the
  specification lists. The type parameter is the type of the two timestamp columns: the raw
  stored value in the database, \<open>timestamp option\<close> after \<open>load_admissions\<close>.
\<close>

record 'ts admission =
  encounter_id :: string
  patient_id :: string
  hospital :: string
  unit_id :: string
  triage_level :: "int option"
  admit_ts :: 'ts
  discharge_ts :: 'ts
  wait_minutes :: "int option"

type_synonym encounter = "timestamp option admission"

record capacity_record =
  cap_hospital :: string
  cap_unit_id :: string
  baseline_staffed_beds :: nat

text \<open>
  A float is an exact real, one of the two infinities, or \<open>NaN\<close>; rounding is not modelled.
\<close>

datatype fval = Finite real | PosInf | NegInf | NaN

text \<open>The working copy \<open>df\<close>: the encounter with its two truncated dates.\<close>

record df_row = "timestamp option admission" +
  admit_d :: "date option"
  discharge_d :: "date option"

record census_row =
  c_hospital :: string
  c_unit_id :: string
  c_date :: date
  c_census :: int

record occupancy_point =
  o_hospital :: string
  o_unit_id :: string
  o_date :: date
  census :: int
  staffed_beds :: int
  occ_pct :: fval

datatype error = KeyError | TypeError | AttributeError

section \<open>Float arithmetic of pandas\<close>

text \<open>
  True division of an integer column by an integer column that may hold \<open>NaN\<close>:
  no exception on a zero denominator, but an infinity (or \<open>NaN\<close> for \<open>0 / 0\<close>).
\<close>

definition truediv :: "int \<Rightarrow> int option \<Rightarrow> fval" where
  "truediv a b =
     (case b of
        None \<Rightarrow> NaN
      | Some d \<Rightarrow>
          if d = 0 then (if 0 < a then PosInf else if a < 0 then NegInf else NaN)
          else Finite (real_of_int a / real_of_int d))"

fun fmul :: "fval \<Rightarrow> real \<Rightarrow> fval" where
  "fmul (Finite x) k = Finite (x * k)"
| "fmul PosInf k = (if 0 < k then PosInf else if k < 0 then NegInf else NaN)"
| "fmul NegInf k = (if 0 < k then NegInf else if k < 0 then PosInf else NaN)"
| "fmul NaN k = NaN"

fun clip_upper :: "real \<Rightarrow> fval \<Rightarrow> fval" where
  "clip_upper u (Finite x) = Finite (min x u)"
| "clip_upper u PosInf = Finite u"
| "clip_upper u NegInf = NegInf"
| "clip_upper u NaN = NaN"

text \<open>
  An integer column that receives a missing value becomes a \<open>float64\<close> column: every
  integer in it is replaced by the nearest number with a significand of 53 bits, ties to the
  even one. \<open>excess_bits n\<close> is the number of low bits of \<open>n\<close> the significand has no room for.
\<close>

function excess_bits :: "nat \<Rightarrow> nat" where
  "excess_bits n = (if n < 2 ^ 53 then 0 else Suc (excess_bits (n div 2)))"
  by pat_completeness auto
termination
  by (relation "measure (\<lambda>n. n)") auto

declare excess_bits.simps [simp del]

definition float64_of_nat :: "nat \<Rightarrow> nat" where
  "float64_of_nat n =
     (let e = excess_bits n; q = n div 2 ^ e; r = n mod 2 ^ e
      in if e = 0 then n
         else (if 2 * r > 2 ^ e \<or> (2 * r = 2 ^ e \<and> odd q) then q + 1 else q) * 2 ^ e)"

text \<open>
  \<open>astype(int)\<close>: the value as a 64-bit integer. A float of \<open>2 ^ 63\<close> or more is out of
  range, and the conversion of x86-64 then gives the least 64-bit integer.
\<close>

definition astype_int64 :: "nat \<Rightarrow> int" where
  "astype_int64 v = (if v < 2 ^ 63 then int v else - (2 ^ 63))"

section \<open>The census engine\<close>

definition ns_per_day :: int where
  "ns_per_day = 86400000000000"

text \<open>\<open>.dt.date\<close>: drop the time of day; \<open>NaT\<close> stays \<open>NaT\<close>.\<close>

definition dt_date :: "timestamp option \<Rightarrow> date option" where
  "dt_date ts = (case ts of None \<Rightarrow> None | Some t \<Rightarrow> Some (t div ns_per_day))"

text \<open>
  The calendar day as the specification has it, stated without the truncation: day \<open>d\<close> is
  the 24 hours of 60 minutes of 60 seconds of \<open>10 ^ 9\<close> nanoseconds that start \<open>d\<close> days after
  the epoch, and a timestamp is on the day whose hours it falls into.
\<close>

definition on_day :: "timestamp \<Rightarrow> date \<Rightarrow> bool" where
  "on_day t d =
     (d * (24 * 60 * 60 * 1000000000) \<le> t \<and> t < (d + 1) * (24 * 60 * 60 * 1000000000))"

text \<open>
  Comparison of an object column with a date: a missing entry compares as \<open>False\<close>.
\<close>

definition le_date :: "date option \<Rightarrow> date \<Rightarrow> bool" where
  "le_date x d = (case x of None \<Rightarrow> False | Some a \<Rightarrow> a \<le> d)"

definition gt_date :: "date option \<Rightarrow> date \<Rightarrow> bool" where
  "gt_date x d = (case x of None \<Rightarrow> False | Some b \<Rightarrow> b > d)"

text \<open>
  A column of dates in which every entry is missing is not an object column: pandas infers
  \<open>datetime64[ns]\<close> for it, and its comparison with a date raises a \<open>TypeError\<close>.
\<close>

definition compare_raises :: "df_row list \<Rightarrow> bool" where
  "compare_raises df =
     (list_all (\<lambda>r. admit_d r = None) df \<or> list_all (\<lambda>r. discharge_d r = None) df)"

definition with_dates :: "encounter list \<Rightarrow> df_row list" where
  "with_dates adm =
     map (\<lambda>e. admission.extend e
            \<lparr>admit_d = dt_date (admit_ts e), discharge_d = dt_date (discharge_ts e)\<rparr>) adm"

definition date_range :: "date \<Rightarrow> date \<Rightarrow> date list" where
  "date_range date_start date_end = [date_start..date_end]"

text \<open>\<open>df.groupby(["hospital", "unit_id"])\<close>: the groups in the order of their sorted keys.\<close>

definition groupby :: "df_row list \<Rightarrow> ((string \<times> string) \<times> df_row list) list" where
  "groupby df =
     map (\<lambda>k. (k, filter (\<lambda>r. (hospital r, unit_id r) = k) df))
       (sort (remdups (map (\<lambda>r. (hospital r, unit_id r)) df)))"

definition count_present :: "(date option \<times> date option) list \<Rightarrow> date \<Rightarrow> int" where
  "count_present g d = int (length (filter (\<lambda>(a, b). le_date a d \<and> gt_date b d) g))"

definition census_list ::
  "string \<Rightarrow> string \<Rightarrow> (date option \<times> date option) list \<Rightarrow> date list \<Rightarrow> census_row list" where
  "census_list h u g days =
     map (\<lambda>d. \<lparr>c_hospital = h, c_unit_id = u, c_date = d, c_census = count_present g d\<rparr>) days"

definition census_groups :: "df_row list \<Rightarrow> date list \<Rightarrow> census_row list list" where
  "census_groups df days =
     map (\<lambda>((h, u), g). census_list h u (map (\<lambda>r. (admit_d r, discharge_d r)) g) days)
       (groupby df)"

text \<open>
  The left merge on \<open>(hospital, unit_id)\<close>: every left row once per matching capacity
  record, in the order of \<open>beds_ref\<close>, and once with a missing value (\<open>None\<close>, the
  \<open>NaN\<close> of pandas) when none matches. The left rows are any rows with such a key.
\<close>

definition merge_left ::
  "('a \<Rightarrow> string \<times> string) \<Rightarrow> 'a list \<Rightarrow> capacity_record list \<Rightarrow> ('a \<times> nat option) list" where
  "merge_left on_key left beds_ref =
     concat (map (\<lambda>x.
       (case filter (\<lambda>b. (cap_hospital b, cap_unit_id b) = on_key x) beds_ref of
          [] \<Rightarrow> [(x, None)]
        | ms \<Rightarrow> map (\<lambda>b. (x, Some (baseline_staffed_beds b))) ms)) left)"

text \<open>
  The type of the merged column: 64-bit integers when every left row found a record,
  \<open>float64\<close> as soon as one value is missing.
\<close>

definition has_missing :: "('a \<times> nat option) list \<Rightarrow> bool" where
  "has_missing ms = list_ex (\<lambda>m. snd m = None) ms"

definition to_dtype :: "bool \<Rightarrow> 'a \<times> nat option \<Rightarrow> 'a \<times> nat option" where
  "to_dtype as_float m =
     (if as_float then (fst m, map_option float64_of_nat (snd m)) else m)"

definition merged_column :: "('a \<times> nat option) list \<Rightarrow> ('a \<times> nat option) list" where
  "merged_column ms = map (to_dtype (has_missing ms)) ms"

definition census_key :: "census_row \<Rightarrow> string \<times> string" where
  "census_key c = (c_hospital c, c_unit_id c)"

text \<open>
  \<open>out["staffed_beds"] = out["staffed_beds"].fillna(0).astype(int)\<close> on the renamed
  column.
\<close>

definition fillna0 :: "nat option \<Rightarrow> int" where
  "fillna0 x = (case x of None \<Rightarrow> 0 | Some v \<Rightarrow> astype_int64 v)"

definition fill_staffed :: "census_row \<times> nat option \<Rightarrow> census_row \<times> int" where
  "fill_staffed m = (fst m, fillna0 (snd m))"

text \<open>
  \<open>out["occ_pct"] = np.where(staffed_beds > 0, (census / staffed_beds) * 100.0, np.nan)\<close>.
\<close>

definition attach_occ :: "census_row \<times> int \<Rightarrow> occupancy_point" where
  "attach_occ m =
     (let c = fst m; sb = snd m in
      \<lparr>o_hospital = c_hospital c, o_unit_id = c_unit_id c, o_date = c_date c,
       census = c_census c, staffed_beds = sb,
       occ_pct = (if sb > 0 then fmul (truediv (c_census c) (Some sb)) 100 else NaN)\<rparr>)"

text \<open>
  The function. The comparisons of line 156 run once the day grid and the groups are not
  empty; with an empty day grid every group frame is empty and has no columns, so neither
  has their concatenation, and the merge on \<open>hospital\<close> and \<open>unit_id\<close> raises a \<open>KeyError\<close>.
\<close>

definition compute_daily_true_occupancy ::
  "encounter list \<Rightarrow> capacity_record list \<Rightarrow> date \<Rightarrow> date \<Rightarrow> error + occupancy_point list" where
  "compute_daily_true_occupancy adm beds_ref date_start date_end =
     (if adm = [] then Inr []
      else
        let df = with_dates adm;
            days = date_range date_start date_end
        in if days \<noteq> [] \<and> compare_raises df then Inl TypeError
           else
             let groups = census_groups df days;
                 cs = concat groups
             in if cs = [] then Inl KeyError
                else Inr (map attach_occ (map fill_staffed
                            (merged_column (merge_left census_key cs beds_ref)))))"

text \<open>
  The dates of one group, \<open>g[["admit_d", "discharge_d"]]\<close>, and the rows the function
  returns for one group: both name parts of \<open>compute_daily_true_occupancy\<close>.
\<close>

definition group_dates ::
  "string \<Rightarrow> string \<Rightarrow> encounter list \<Rightarrow> (date option \<times> date option) list" where
  "group_dates h u adm =
     map (\<lambda>e. (dt_date (admit_ts e), dt_date (discharge_ts e)))
       (filter (\<lambda>e. hospital e = h \<and> unit_id e = u) adm)"

definition group_rows ::
  "bool \<Rightarrow> string \<Rightarrow> string \<Rightarrow> (date option \<times> date option) list \<Rightarrow> date list \<Rightarrow>
     capacity_record list \<Rightarrow> occupancy_point list" where
  "group_rows as_float h u g days beds_ref =
     map attach_occ (map fill_staffed (map (to_dtype as_float)
       (merge_left census_key (census_list h u g days) beds_ref)))"

definition rows_of :: "string \<Rightarrow> string \<Rightarrow> occupancy_point list \<Rightarrow> occupancy_point list" where
  "rows_of h u out = filter (\<lambda>r. o_hospital r = h \<and> o_unit_id r = u) out"

text \<open>The keys of the groups, in the order \<open>groupby\<close> yields them.\<close>

definition group_keys :: "encounter list \<Rightarrow> (string \<times> string) list" where
  "group_keys adm = sort (remdups (map (\<lambda>e. (hospital e, unit_id e)) adm))"

text \<open>Whether the merged capacity column of a call is a \<open>float64\<close> column.\<close>

definition float_column :: "encounter list \<Rightarrow> capacity_record list \<Rightarrow> date \<Rightarrow> date \<Rightarrow> bool" where
  "float_column adm beds_ref date_start date_end =
     has_missing (merge_left census_key
       (concat (census_groups (with_dates adm) (date_range date_start date_end))) beds_ref)"

section \<open>The metrics of the dashboard\<close>

text \<open>\<open>groupby(keys).size()\<close>: the number of rows of every key that occurs, keys sorted.\<close>

definition groupby_size :: "'k::linorder list \<Rightarrow> ('k \<times> nat) list" where
  "groupby_size ks = map (\<lambda>k. (k, length (filter (\<lambda>x. x = k) ks))) (sort (remdups ks))"

text \<open>\<open>Series.mean()\<close>: \<open>NaN\<close> on an empty series.\<close>

definition series_mean :: "real list \<Rightarrow> fval" where
  "series_mean xs = (if xs = [] then NaN else Finite (sum_list xs / real (length xs)))"

text \<open>The grouping key \<open>admit_ts.dt.date\<close>; a row whose key is missing is in no group.\<close>

definition admit_dates :: "encounter list \<Rightarrow> date list" where
  "admit_dates adm = List.map_filter (\<lambda>e. dt_date (admit_ts e)) adm"

definition admissions_per_day :: "encounter list \<Rightarrow> fval" where
  "admissions_per_day adm =
     (if length adm \<noteq> 0
      then series_mean (map (\<lambda>(d, n). real n) (groupby_size (admit_dates adm)))
      else Finite 0)"

text \<open>
  The specification's words for the admissions-per-day metric: the number of encounters
  admitted on a calendar day, and the calendar days on which at least one was admitted.
\<close>

definition admissions_on :: "encounter list \<Rightarrow> date \<Rightarrow> nat" where
  "admissions_on adm d =
     length (filter (\<lambda>e. case admit_ts e of None \<Rightarrow> False | Some t \<Rightarrow> on_day t d) adm)"

definition admission_days :: "encounter list \<Rightarrow> date set" where
  "admission_days adm = {d. 1 \<le> admissions_on adm d}"

record arrivals_row =
  a_hospital :: string
  a_unit_id :: string
  a_date :: date
  arrivals :: int

record proxy_row = arrivals_row +
  p_baseline_staffed_beds :: "nat option"
  p_occ_proxy :: fval

definition daily_arrivals :: "encounter list \<Rightarrow> arrivals_row list" where
  "daily_arrivals adm =
     map (\<lambda>((h, u, d), n). \<lparr>a_hospital = h, a_unit_id = u, a_date = d, arrivals = int n\<rparr>)
       (groupby_size
          (List.map_filter
             (\<lambda>e. case dt_date (admit_ts e) of
                     None \<Rightarrow> None
                   | Some d \<Rightarrow> Some (hospital e, unit_id e, d)) adm))"

definition arrivals_key :: "arrivals_row \<Rightarrow> string \<times> string" where
  "arrivals_key a = (a_hospital a, a_unit_id a)"

text \<open>
  \<open>occ_proxy["occ_proxy"] = (arrivals / baseline_staffed_beds).clip(upper=1.2)\<close> on the
  left merge of the daily arrivals with the capacity table.
\<close>

definition occ_proxy :: "encounter list \<Rightarrow> capacity_record list \<Rightarrow> proxy_row list" where
  "occ_proxy adm beds_ref =
     map (\<lambda>(a, b). arrivals_row.extend a
            \<lparr>p_baseline_staffed_beds = b,
             p_occ_proxy = clip_upper (12 / 10) (truediv (arrivals a) (map_option int b))\<rparr>)
       (merge_left arrivals_key (daily_arrivals adm) beds_ref)"

section \<open>The query interface\<close>

text \<open>
  The conditions \<open>load_admissions\<close> appends to \<open>SELECT * FROM admissions WHERE 1=1\<close>, each
  with its parameter. The date parameter is \<open>str(date_from)\<close>, which \<open>date(?)\<close> reads back as
  the same date.
\<close>

datatype cond = Admit_date_ge date | Admit_date_le date | Hospital_eq string | Unit_eq string

definition build_query ::
  "date option \<Rightarrow> date option \<Rightarrow> string option \<Rightarrow> string option \<Rightarrow> cond list" where
  "build_query date_from date_to hospital_arg unit_arg =
     (case date_from of None \<Rightarrow> [] | Some d \<Rightarrow> [Admit_date_ge d]) @
     (case date_to of None \<Rightarrow> [] | Some d \<Rightarrow> [Admit_date_le d]) @
     (case hospital_arg of None \<Rightarrow> [] | Some h \<Rightarrow> if h \<noteq> ''All'' then [Hospital_eq h] else []) @
     (case unit_arg of None \<Rightarrow> [] | Some u \<Rightarrow> if u \<noteq> ''All'' then [Unit_eq u] else [])"

text \<open>
  A condition evaluates to true, false or \<open>NULL\<close> (\<open>None\<close>). The function \<open>date()\<close> of
  SQLite is a parameter: it gives \<open>NULL\<close> on a value it cannot read as a time.
\<close>

fun eval_cond :: "('raw \<Rightarrow> date option) \<Rightarrow> 'raw admission \<Rightarrow> cond \<Rightarrow> bool option" where
  "eval_cond sqlite_date r (Admit_date_ge d) =
     (case sqlite_date (admit_ts r) of None \<Rightarrow> None | Some a \<Rightarrow> Some (a \<ge> d))"
| "eval_cond sqlite_date r (Admit_date_le d) =
     (case sqlite_date (admit_ts r) of None \<Rightarrow> None | Some a \<Rightarrow> Some (a \<le> d))"
| "eval_cond sqlite_date r (Hospital_eq h) = Some (hospital r = h)"
| "eval_cond sqlite_date r (Unit_eq u) = Some (unit_id r = u)"

definition sql_and :: "bool option \<Rightarrow> bool option \<Rightarrow> bool option" where
  "sql_and a b =
     (if a = Some False \<or> b = Some False then Some False
      else if a = Some True \<and> b = Some True then Some True
      else None)"

definition where_clause :: "('raw \<Rightarrow> date option) \<Rightarrow> cond list \<Rightarrow> 'raw admission \<Rightarrow> bool option" where
  "where_clause sqlite_date conds r = foldl sql_and (Some True) (map (eval_cond sqlite_date r) conds)"

text \<open>\<open>pd.read_sql\<close>: the rows of the table on which the \<open>WHERE\<close> clause is true.\<close>

definition read_sql ::
  "('raw \<Rightarrow> date option) \<Rightarrow> cond list \<Rightarrow> 'raw admission list \<Rightarrow> 'raw admission list" where
  "read_sql sqlite_date conds table =
     filter (\<lambda>r. where_clause sqlite_date conds r = Some True) table"

text \<open>
  \<open>pd.to_datetime(..., errors="coerce")\<close> on the two timestamp columns. The parser is a
  parameter: it gives \<open>None\<close> (\<open>NaT\<close>) on a value it cannot parse.
\<close>

definition coerce_ts :: "('raw \<Rightarrow> timestamp option) \<Rightarrow> 'raw admission \<Rightarrow> encounter" where
  "coerce_ts to_datetime r =
     \<lparr>encounter_id = encounter_id r, patient_id = patient_id r, hospital = hospital r,
      unit_id = unit_id r, triage_level = triage_level r,
      admit_ts = to_datetime (admit_ts r), discharge_ts = to_datetime (discharge_ts r),
      wait_minutes = wait_minutes r\<rparr>"

definition load_admissions ::
  "('raw \<Rightarrow> date option) \<Rightarrow> ('raw \<Rightarrow> timestamp option) \<Rightarrow> 'raw admission list \<Rightarrow>
     date option \<Rightarrow> date option \<Rightarrow> string option \<Rightarrow> string option \<Rightarrow> encounter list" where
  "load_admissions sqlite_date to_datetime table date_from date_to hospital_arg unit_arg =
     map (coerce_ts to_datetime)
       (read_sql sqlite_date (build_query date_from date_to hospital_arg unit_arg) table)"

text \<open>
  The filter as the specification words it: a sentinel (\<open>None\<close> or \<open>"All"\<close>) filters nothing,
  and a date bound compares the calendar date of \<open>admit_ts\<close>.
\<close>

definition passes_filters ::
  "('raw \<Rightarrow> date option) \<Rightarrow> date option \<Rightarrow> date option \<Rightarrow> string option \<Rightarrow> string option \<Rightarrow>
     'raw admission \<Rightarrow> bool" where
  "passes_filters sqlite_date date_from date_to hospital_arg unit_arg r =
     ((case date_from of None \<Rightarrow> True
        | Some d \<Rightarrow> (case sqlite_date (admit_ts r) of None \<Rightarrow> False | Some a \<Rightarrow> d \<le> a)) \<and>
      (case date_to of None \<Rightarrow> True
        | Some d \<Rightarrow> (case sqlite_date (admit_ts r) of None \<Rightarrow> False | Some a \<Rightarrow> a \<le> d)) \<and>
      (hospital_arg = None \<or> hospital_arg = Some ''All'' \<or> hospital_arg = Some (hospital r)) \<and>
      (unit_arg = None \<or> unit_arg = Some ''All'' \<or> unit_arg = Some (unit_id r)))"

section \<open>The call on a store of data frames\<close>

text \<open>
  Data frames are objects: the function receives references, and pandas changes a frame in
  place when a column is assigned. A store is the list of the frames allocated so far, a
  reference an index into it. An encounter frame carries, besides its rows, the columns
  added to it by name.
\<close>

datatype frame =
    Adm "encounter list" "(string \<times> date option list) list"
  | Beds "capacity_record list"
  | Census "census_row list"
  | Merged "(census_row \<times> nat option) list"
  | Filled "(census_row \<times> int) list"
  | Occupancy "occupancy_point list"

type_synonym store = "frame list"

definition lookup :: "store \<Rightarrow> nat \<Rightarrow> frame option" where
  "lookup st p = (if p < length st then Some (st ! p) else None)"

text \<open>A new frame (the result of \<open>copy\<close>, \<open>concat\<close>, \<open>merge\<close>, \<open>pd.DataFrame\<close>).\<close>

definition alloc :: "frame \<Rightarrow> store \<Rightarrow> nat \<times> store" where
  "alloc f st = (length st, st @ [f])"

definition assign :: "nat \<Rightarrow> frame \<Rightarrow> store \<Rightarrow> store" where
  "assign p f st = st[p := f]"

text \<open>\<open>df[name] = col\<close>: replaces the column of that name or appends a new one, in place.\<close>

definition set_column :: "nat \<Rightarrow> string \<Rightarrow> date option list \<Rightarrow> store \<Rightarrow> store" where
  "set_column p name col st =
     (case lookup st p of
        Some (Adm rows cols) \<Rightarrow> assign p (Adm rows (AList.update name col cols)) st
      | _ \<Rightarrow> st)"

text \<open>Reading the rows of \<open>df\<close> with the two date columns; a missing column is a \<open>KeyError\<close>.\<close>

definition dated_rows :: "store \<Rightarrow> nat \<Rightarrow> df_row list option" where
  "dated_rows st p =
     (case lookup st p of
        Some (Adm rows cols) \<Rightarrow>
          (case (map_of cols ''admit_d'', map_of cols ''discharge_d'') of
             (Some ad, Some dd) \<Rightarrow>
               Some (map (\<lambda>(e, a, d). admission.extend e \<lparr>admit_d = a, discharge_d = d\<rparr>)
                       (zip rows (zip ad dd)))
           | _ \<Rightarrow> None)
      | _ \<Rightarrow> None)"

text \<open>The columns of the working copy \<open>df\<close> after the two assignments.\<close>

definition df_columns ::
  "encounter list \<Rightarrow> (string \<times> date option list) list \<Rightarrow> (string \<times> date option list) list" where
  "df_columns rows cols =
     AList.update ''discharge_d'' (map (\<lambda>e. dt_date (discharge_ts e)) rows)
       (AList.update ''admit_d'' (map (\<lambda>e. dt_date (admit_ts e)) rows) cols)"

text \<open>
  The function on the store, statement by statement: \<open>adm.copy()\<close> allocates \<open>df\<close>, the two
  column assignments change \<open>df\<close> in place, \<open>pd.concat\<close> and \<open>merge\<close> allocate \<open>census\<close> and
  \<open>out\<close>, and the assignments of \<open>staffed_beds\<close> and \<open>occ_pct\<close> change \<open>out\<close> in place. The
  in-place \<open>rename\<close> of the merged column changes a name only, which a typed frame does not
  carry. A reference that holds no frame of the expected kind ends the call with an error.
\<close>

definition compute_daily_true_occupancy_on ::
  "store \<Rightarrow> nat \<Rightarrow> nat \<Rightarrow> date \<Rightarrow> date \<Rightarrow> (error + nat) \<times> store" where
  "compute_daily_true_occupancy_on st adm beds_ref date_start date_end =
     (case (lookup st adm, lookup st beds_ref) of
        (Some (Adm rows cols), Some (Beds bs)) \<Rightarrow>
          if rows = [] then (let (out, st1) = alloc (Occupancy []) st in (Inr out, st1))
          else
            let (df, st1) = alloc (Adm rows cols) st;
                st2 = set_column df ''admit_d'' (map (\<lambda>e. dt_date (admit_ts e)) rows) st1;
                st3 = set_column df ''discharge_d'' (map (\<lambda>e. dt_date (discharge_ts e)) rows) st2;
                days = date_range date_start date_end
            in (case dated_rows st3 df of
                  None \<Rightarrow> (Inl KeyError, st3)
                | Some d \<Rightarrow>
                    if days \<noteq> [] \<and> compare_raises d then (Inl TypeError, st3)
                    else
                      let groups = census_groups d days;
                          (cs, st4) = alloc (Census (concat groups)) st3
                      in if concat groups = [] then (Inl KeyError, st4)
                         else
                           let merged = merged_column (merge_left census_key (concat groups) bs);
                               (out, st5) = alloc (Merged merged) st4;
                               filled = map fill_staffed merged;
                               st6 = assign out (Filled filled) st5;
                               st7 = assign out (Occupancy (map attach_occ filled)) st6
                           in (Inr out, st7))
      | _ \<Rightarrow> (Inl AttributeError, st))"

section \<open>A worked example\<close>

text \<open>
  One stay in the unit ICU, admitted on 2024-01-01 at 10:00 (day 19723) and discharged on
  2024-01-03 at 08:00 (day 19725), with two staffed beds; a stay within that first day, from
  12:00 to 19:00; a stay whose discharge time is missing, and one whose admit time is.
\<close>

definition ex_encounter :: encounter where
  "ex_encounter =
     \<lparr>encounter_id = ''E1'', patient_id = ''P1'', hospital = ''General'', unit_id = ''ICU'',
      triage_level = None, admit_ts = Some 1704103200000000000,
      discharge_ts = Some 1704268800000000000, wait_minutes = None\<rparr>"

definition ex_beds :: "capacity_record list" where
  "ex_beds = [\<lparr>cap_hospital = ''General'', cap_unit_id = ''ICU'', baseline_staffed_beds = 2\<rparr>]"

definition ex_same_day :: encounter where
  "ex_same_day =
     \<lparr>encounter_id = ''E2'', patient_id = ''P2'', hospital = ''General'', unit_id = ''ICU'',
      triage_level = None, admit_ts = Some 1704110400000000000,
      discharge_ts = Some 1704135600000000000, wait_minutes = None\<rparr>"

definition ex_no_discharge :: encounter where
  "ex_no_discharge =
     \<lparr>encounter_id = ''E3'', patient_id = ''P3'', hospital = ''General'', unit_id = ''ICU'',
      triage_level = None, admit_ts = Some 1704103200000000000,
      discharge_ts = None, wait_minutes = None\<rparr>"

definition ex_no_admit :: encounter where
  "ex_no_admit =
     \<lparr>encounter_id = ''E5'', patient_id = ''P5'', hospital = ''General'', unit_id = ''ICU'',
      triage_level = None, admit_ts = None,
      discharge_ts = Some 1704268800000000000, wait_minutes = None\<rparr>"

text \<open>
  A short emergency stay on 2024-01-03 (day 19725); capacity tables with no staffed bed,
  with two records for the one unit, and with more beds than a \<open>float64\<close> holds exactly
  (\<open>2 ^ 53 + 1\<close>); and the stored tables with the raw timestamps, of which \<open>unknown\<close> does
  not parse. The two parsers read the three timestamps of the example and nothing else.
\<close>

definition ex_later :: encounter where
  "ex_later =
     \<lparr>encounter_id = ''E4'', patient_id = ''P4'', hospital = ''General'', unit_id = ''ED'',
      triage_level = Some 2, admit_ts = Some 1704268800000000000,
      discharge_ts = Some 1704272400000000000, wait_minutes = Some 35\<rparr>"

definition ex_beds_zero :: "capacity_record list" where
  "ex_beds_zero = [\<lparr>cap_hospital = ''General'', cap_unit_id = ''ICU'', baseline_staffed_beds = 0\<rparr>]"

definition ex_beds_twice :: "capacity_record list" where
  "ex_beds_twice =
     [\<lparr>cap_hospital = ''General'', cap_unit_id = ''ICU'', baseline_staffed_beds = 2\<rparr>,
      \<lparr>cap_hospital = ''General'', cap_unit_id = ''ICU'', baseline_staffed_beds = 4\<rparr>]"

definition ex_beds_big :: "capacity_record list" where
  "ex_beds_big =
     [\<lparr>cap_hospital = ''General'', cap_unit_id = ''ICU'',
       baseline_staffed_beds = 9007199254740993\<rparr>]"

definition ex_to_datetime :: "string \<Rightarrow> timestamp option" where
  "ex_to_datetime raw =
     (if raw = ''2024-01-01 10:00:00'' then Some 1704103200000000000
      else if raw = ''2024-01-03 08:00:00'' then Some 1704268800000000000
      else if raw = ''2024-01-03 09:00:00'' then Some 1704272400000000000
      else None)"

definition ex_sqlite_date :: "string \<Rightarrow> date option" where
  "ex_sqlite_date raw = dt_date (ex_to_datetime raw)"

definition ex_table :: "string admission list" where
  "ex_table =
     [\<lparr>encounter_id = ''E1'', patient_id = ''P1'', hospital = ''General'', unit_id = ''ICU'',
       triage_level = None, admit_ts = ''2024-01-01 10:00:00'',
       discharge_ts = ''2024-01-03 08:00:00'', wait_minutes = None\<rparr>,
      \<lparr>encounter_id = ''E3'', patient_id = ''P3'', hospital = ''General'', unit_id = ''ICU'',
       triage_level = None, admit_ts = ''2024-01-01 10:00:00'',
       discharge_ts = ''unknown'', wait_minutes = None\<rparr>,
      \<lparr>encounter_id = ''E4'', patient_id = ''P4'', hospital = ''General'', unit_id = ''ED'',
       triage_level = Some 2, admit_ts = ''2024-01-03 08:00:00'',
       discharge_ts = ''2024-01-03 09:00:00'', wait_minutes = Some 35\<rparr>]"

definition ex_table_malformed :: "string admission list" where
  "ex_table_malformed =
     [\<lparr>encounter_id = ''E1'', patient_id = ''P1'', hospital = ''General'', unit_id = ''ICU'',
       triage_level = None, admit_ts = ''2024-01-01 10:00:00'',
       discharge_ts = ''2024-01-03 08:00:00'', wait_minutes = None\<rparr>,
      \<lparr>encounter_id = ''E3'', patient_id = ''P3'', hospital = ''General'', unit_id = ''ICU'',
       triage_level = None, admit_ts = ''2024-01-01 10:00:00'',
       discharge_ts = ''unknown'', wait_minutes = None\<rparr>,
      \<lparr>encounter_id = ''E5'', patient_id = ''P5'', hospital = ''General'', unit_id = ''ICU'',
       triage_level = None, admit_ts = ''unknown'',
       discharge_ts = ''2024-01-03 08:00:00'', wait_minutes = None\<rparr>]"

text \<open>A store that holds the encounter frame at reference 0 and the capacity frame at 1.\<close>

definition ex_store :: store where
  "ex_store = [Adm [ex_encounter] [], Beds ex_beds]"

section \<open>Lists of keyed rows\<close>

lemma filter_concat_keyed:
  assumes "distinct ks"
    and "\<And>k x. k \<in> set ks \<Longrightarrow> x \<in> set (f k) \<Longrightarrow> (P x \<longleftrightarrow> k = k0)"
  shows "filter P (concat (map f ks)) = (if k0 \<in> set ks then f k0 else [])"
  using assms
proof (induction ks)
  case Nil
  then show ?case by simp
next
  case (Cons k ks)
  have IH: "filter P (concat (map f ks)) = (if k0 \<in> set ks then f k0 else [])"
    using Cons by simp
  show ?case
  proof (cases "k = k0")
    case True
    then have "k0 \<notin> set ks" using Cons.prems(1) by simp
    moreover have "filter P (f k) = f k" using True Cons.prems(2)[of k] by (simp add: filter_id_conv)
    ultimately show ?thesis using IH True by simp
  next
    case False
    then have "filter P (f k) = []" using Cons.prems(2)[of k] by (simp add: filter_empty_conv)
    then show ?thesis using IH False by auto
  qed
qed

lemma merge_left_concat:
  "merge_left key (concat xss) beds_ref = concat (map (\<lambda>xs. merge_left key xs beds_ref) xss)"
  by (induction xss) (simp_all add: merge_left_def)

lemma merge_left_fst:
  assumes "m \<in> set (merge_left key xs beds_ref)"
  shows "fst m \<in> set xs"
proof -
  from assms obtain x where x: "x \<in> set xs" and m: "m \<in> set
       (case filter (\<lambda>b. (cap_hospital b, cap_unit_id b) = key x) beds_ref of
          [] \<Rightarrow> [(x, None)]
        | ms \<Rightarrow> map (\<lambda>b. (x, Some (baseline_staffed_beds b))) ms)"
    by (auto simp: merge_left_def)
  from m have "fst m = x"
    by (cases "filter (\<lambda>b. (cap_hospital b, cap_unit_id b) = key x) beds_ref") auto
  with x show ?thesis by simp
qed

lemma merge_left_covers:
  assumes "x \<in> set xs"
  shows "\<exists>m\<in>set (merge_left key xs beds_ref). fst m = x"
proof -
  let ?ms = "case filter (\<lambda>b. (cap_hospital b, cap_unit_id b) = key x) beds_ref of
          [] \<Rightarrow> [(x, None)]
        | ms \<Rightarrow> map (\<lambda>b. (x, Some (baseline_staffed_beds b))) ms"
  have "\<exists>m\<in>set ?ms. fst m = x"
    by (cases "filter (\<lambda>b. (cap_hospital b, cap_unit_id b) = key x) beds_ref") auto
  moreover have "set ?ms \<subseteq> set (merge_left key xs beds_ref)"
    using assms by (auto simp: merge_left_def)
  ultimately show ?thesis by blast
qed

lemma merge_left_snd:
  assumes "m \<in> set (merge_left key xs beds_ref)"
  shows "(\<exists>b\<in>set beds_ref. (cap_hospital b, cap_unit_id b) = key (fst m) \<and> snd m = Some (baseline_staffed_beds b))
       \<or> ((\<forall>b\<in>set beds_ref. (cap_hospital b, cap_unit_id b) \<noteq> key (fst m)) \<and> snd m = None)"
proof -
  from assms obtain x where x: "x \<in> set xs" and m: "m \<in> set
       (case filter (\<lambda>b. (cap_hospital b, cap_unit_id b) = key x) beds_ref of
          [] \<Rightarrow> [(x, None)]
        | ms \<Rightarrow> map (\<lambda>b. (x, Some (baseline_staffed_beds b))) ms)"
    by (auto simp: merge_left_def)
  show ?thesis
  proof (cases "filter (\<lambda>b. (cap_hospital b, cap_unit_id b) = key x) beds_ref")
    case Nil
    then have "\<forall>b\<in>set beds_ref. (cap_hospital b, cap_unit_id b) \<noteq> key x"
      by (simp add: filter_empty_conv)
    moreover from m Nil have "m = (x, None)" by simp
    ultimately show ?thesis by simp
  next
    case (Cons b bs)
    with m obtain b' where b': "b' \<in> set (b # bs)" and meq: "m = (x, Some (baseline_staffed_beds b'))"
      by auto
    from b' have "b' \<in> set (filter (\<lambda>b. (cap_hospital b, cap_unit_id b) = key x) beds_ref)"
      using Cons by simp
    then have "b' \<in> set beds_ref" "(cap_hospital b', cap_unit_id b') = key x" by auto
    with meq show ?thesis by auto
  qed
qed



section \<open>Rounding to a float and back\<close>

lemma excess_bits_small: "n < 2 ^ 53 \<Longrightarrow> excess_bits n = 0"
  by (subst excess_bits.simps) simp

lemma excess_bits_one:
  assumes "2 ^ 53 \<le> n" and "n < 2 ^ 54"
  shows "excess_bits n = 1"
proof -
  from assms(2) have "n div 2 < 2 ^ 53" by simp
  then have "excess_bits (n div 2) = 0" by (rule excess_bits_small)
  moreover from assms(1) have "\<not> n < 2 ^ 53" by simp
  ultimately show ?thesis by (subst excess_bits.simps) simp
qed

lemma float64_of_nat_exact:
  assumes "n \<le> 2 ^ 53"
  shows "float64_of_nat n = n"
proof (cases "n < 2 ^ 53")
  case True
  then show ?thesis by (simp add: float64_of_nat_def excess_bits_small)
next
  case False
  with assms have n: "n = 2 ^ 53" by simp
  have e: "excess_bits n = 1" by (rule excess_bits_one) (simp_all add: n)
  have q: "n div 2 = 2 ^ 52" and r: "n mod 2 = 0" by (simp_all add: n)
  show ?thesis by (simp add: float64_of_nat_def e q r) (simp add: n)
qed

lemma astype_int64_exact: "v \<le> 2 ^ 53 \<Longrightarrow> astype_int64 v = int v"
proof -
  assume "v \<le> 2 ^ 53"
  moreover have "(2::nat) ^ 53 < 2 ^ 63" by simp
  ultimately have "v < 2 ^ 63" by (rule le_less_trans)
  then show ?thesis by (simp add: astype_int64_def)
qed

lemma float64_big: "float64_of_nat 9007199254740993 = 9007199254740992"
proof -
  have e: "excess_bits 9007199254740993 = 1" by (rule excess_bits_one) simp_all
  show ?thesis by (simp add: float64_of_nat_def e)
qed

lemma to_dtype_fst: "fst (to_dtype fl m) = fst m"
  by (simp add: to_dtype_def)

lemma to_dtype_exact:
  assumes "\<forall>b\<in>set beds_ref. baseline_staffed_beds b \<le> 2 ^ 53"
    and "m \<in> set (merge_left key xs beds_ref)"
  shows "to_dtype fl m = m \<and> fillna0 (snd m) = (case snd m of None \<Rightarrow> 0 | Some v \<Rightarrow> int v)"
proof (cases "snd m")
  case None
  then show ?thesis by (cases m) (simp add: to_dtype_def fillna0_def)
next
  case (Some v)
  from merge_left_snd[OF assms(2)] Some obtain b where "b \<in> set beds_ref"
    and "v = baseline_staffed_beds b" by auto
  with assms(1) have v: "v \<le> 2 ^ 53" by simp
  show ?thesis
    using Some by (cases m) (simp add: to_dtype_def fillna0_def float64_of_nat_exact[OF v]
        astype_int64_exact[OF v])
qed

section \<open>Calendar days\<close>

lemma dt_date_on_day: "on_day t d \<Longrightarrow> dt_date (Some t) = Some d"
proof -
  assume "on_day t d"
  then have lo: "d * 86400000000000 \<le> t" and hi: "t < (d + 1) * 86400000000000"
    by (simp_all add: on_day_def)
  have "t div 86400000000000 = d"
  proof (rule int_div_pos_eq)
    show "t = 86400000000000 * d + (t - d * 86400000000000)" by simp
    show "0 \<le> t - d * 86400000000000" using lo by simp
    show "t - d * 86400000000000 < 86400000000000" using hi by (simp add: algebra_simps)
  qed
  then show ?thesis by (simp add: dt_date_def ns_per_day_def)
qed

lemma on_day_iff: "on_day t d = (dt_date (Some t) = Some d)"
proof
  assume "on_day t d" then show "dt_date (Some t) = Some d" by (rule dt_date_on_day)
next
  assume "dt_date (Some t) = Some d"
  then have d: "d = t div 86400000000000" by (simp add: dt_date_def ns_per_day_def)
  have "t div 86400000000000 * 86400000000000 \<le> t" by simp
  moreover have "t < (t div 86400000000000 + 1) * 86400000000000"
    using div_mult_mod_eq[of t 86400000000000] pos_mod_bound[of 86400000000000 t]
    by (simp add: algebra_simps)
  ultimately show "on_day t d" by (simp add: on_day_def d)
qed

lemma set_date_range: "set (date_range s t) = {s..t}"
  by (simp add: date_range_def)

lemma date_range_empty: "(date_range s t = []) = (t < s)"
proof -
  have "(set (date_range s t) = {}) = (t < s)" by (auto simp: set_date_range)
  then show ?thesis by (simp only: set_empty)
qed

section \<open>The rows of one group\<close>

lemma with_dates_group:
  "map (\<lambda>r. (admit_d r, discharge_d r)) (filter (\<lambda>r. (hospital r, unit_id r) = k) (with_dates adm))
   = group_dates (fst k) (snd k) adm"
  by (induction adm) (auto simp: with_dates_def group_dates_def admission.extend_def)

lemma with_dates_keys:
  "map (\<lambda>r. (hospital r, unit_id r)) (with_dates adm) = map (\<lambda>e. (hospital e, unit_id e)) adm"
  by (simp add: with_dates_def admission.extend_def comp_def)

lemma group_keys_set: "set (group_keys adm) = (\<lambda>e. (hospital e, unit_id e)) ` set adm"
  by (simp add: group_keys_def)

lemma group_keys_distinct: "distinct (group_keys adm)"
  by (simp add: group_keys_def)

lemma compare_raises_with_dates:
  "compare_raises (with_dates adm) =
     ((\<forall>a\<in>set adm. admit_ts a = None) \<or> (\<forall>a\<in>set adm. discharge_ts a = None))"
proof -
  have a: "list_all (\<lambda>r. admit_d r = None) (with_dates adm) = (\<forall>a\<in>set adm. admit_ts a = None)"
    by (induction adm) (auto simp: with_dates_def admission.extend_def dt_date_def split: option.splits)
  have d: "list_all (\<lambda>r. discharge_d r = None) (with_dates adm) = (\<forall>a\<in>set adm. discharge_ts a = None)"
    by (induction adm) (auto simp: with_dates_def admission.extend_def dt_date_def split: option.splits)
  show ?thesis by (simp only: compare_raises_def a d)
qed


lemma census_groups_keys:
  "census_groups (with_dates adm) days =
     map (\<lambda>k. census_list (fst k) (snd k) (group_dates (fst k) (snd k) adm) days) (group_keys adm)"
  by (simp add: census_groups_def groupby_def with_dates_keys[unfolded comp_def] group_keys_def
      split_def with_dates_group comp_def)

lemma compute_nonempty:
  assumes "adm \<noteq> []" and "s \<le> t" and "\<not> compare_raises (with_dates adm)"
  shows "compute_daily_true_occupancy adm beds_ref s t =
     Inr (concat (map (\<lambda>k. group_rows (float_column adm beds_ref s t) (fst k) (snd k)
                          (group_dates (fst k) (snd k) adm) (date_range s t) beds_ref)
        (group_keys adm)))"
proof -
  have "set (group_keys adm) \<noteq> {}"
    using assms(1) by (simp add: group_keys_set)
  then obtain k ks where ks: "group_keys adm = k # ks" by (cases "group_keys adm") auto
  have days: "date_range s t \<noteq> []" using assms(2) by (simp add: date_range_empty)
  then have "census_list (fst k) (snd k) (group_dates (fst k) (snd k) adm) (date_range s t) \<noteq> []"
    by (simp add: census_list_def)
  then have ne: "concat (census_groups (with_dates adm) (date_range s t)) \<noteq> []"
    by (simp add: census_groups_keys ks)
  have "compute_daily_true_occupancy adm beds_ref s t =
      Inr (map attach_occ (map fill_staffed (merged_column (merge_left census_key
        (concat (census_groups (with_dates adm) (date_range s t))) beds_ref))))"
    using assms(1,3) ne by (simp add: compute_daily_true_occupancy_def Let_def)
  also have "merged_column (merge_left census_key
        (concat (census_groups (with_dates adm) (date_range s t))) beds_ref) =
      map (to_dtype (float_column adm beds_ref s t)) (merge_left census_key
        (concat (census_groups (with_dates adm) (date_range s t))) beds_ref)"
    by (simp add: merged_column_def float_column_def)
  finally show ?thesis
    by (simp add: census_groups_keys merge_left_concat map_concat comp_def group_rows_def)
qed

lemma compute_empty_window:
  assumes "adm \<noteq> []" and "t < s"
  shows "compute_daily_true_occupancy adm beds_ref s t = Inl KeyError"
proof -
  have days: "date_range s t = []" using assms(2) by (simp add: date_range_empty)
  have "concat (census_groups (with_dates adm) []) = []"
    by (simp add: census_groups_keys census_list_def)
  then show ?thesis
    using assms(1) by (simp add: compute_daily_true_occupancy_def Let_def days)
qed

lemma compute_all_missing:
  assumes "adm \<noteq> []" and "s \<le> t" and "compare_raises (with_dates adm)"
  shows "compute_daily_true_occupancy adm beds_ref s t = Inl TypeError"
  using assms by (simp add: compute_daily_true_occupancy_def Let_def date_range_empty)

lemma compute_returns:
  assumes "compute_daily_true_occupancy adm beds_ref s t = Inr out"
  shows "(adm = [] \<and> out = []) \<or> (adm \<noteq> [] \<and> s \<le> t \<and> \<not> compare_raises (with_dates adm))"
proof (cases "adm = []")
  case True
  with assms show ?thesis by (simp add: compute_daily_true_occupancy_def)
next
  case False
  have "s \<le> t"
  proof (rule ccontr)
    assume "\<not> s \<le> t"
    then have "t < s" by simp
    from compute_empty_window[OF False this, of beds_ref] assms show False by simp
  qed
  moreover have "\<not> compare_raises (with_dates adm)"
  proof
    assume "compare_raises (with_dates adm)"
    from compute_all_missing[OF False \<open>s \<le> t\<close> this, of beds_ref] assms show False by simp
  qed
  ultimately show ?thesis using False by simp
qed

lemma group_rows_mem:
  assumes "r \<in> set (group_rows fl h u g days beds_ref)"
  shows "o_hospital r = h \<and> o_unit_id r = u \<and> o_date r \<in> set days \<and>
         census r = count_present g (o_date r)"
proof -
  from assms obtain m where m: "m \<in> set (merge_left census_key (census_list h u g days) beds_ref)"
    and r: "r = attach_occ (fill_staffed (to_dtype fl m))"
    by (auto simp: group_rows_def)
  from merge_left_fst[OF m] obtain d where d: "d \<in> set days"
    and c: "fst m = \<lparr>c_hospital = h, c_unit_id = u, c_date = d, c_census = count_present g d\<rparr>"
    by (auto simp: census_list_def)
  show ?thesis using r c d by (simp add: attach_occ_def fill_staffed_def Let_def to_dtype_fst)
qed

lemma group_rows_covers:
  assumes "d \<in> set days"
  shows "\<exists>r\<in>set (group_rows fl h u g days beds_ref). o_date r = d"
proof -
  let ?c = "\<lparr>c_hospital = h, c_unit_id = u, c_date = d, c_census = count_present g d\<rparr>"
  have "?c \<in> set (census_list h u g days)" using assms by (auto simp: census_list_def)
  from merge_left_covers[OF this, of census_key beds_ref]
  obtain m where m: "m \<in> set (merge_left census_key (census_list h u g days) beds_ref)" and f: "fst m = ?c"
    by blast
  have "attach_occ (fill_staffed (to_dtype fl m)) \<in> set (group_rows fl h u g days beds_ref)"
    using m by (simp add: group_rows_def)
  moreover have "o_date (attach_occ (fill_staffed (to_dtype fl m))) = d"
    using f by (simp add: attach_occ_def fill_staffed_def Let_def to_dtype_fst)
  ultimately show ?thesis by blast
qed


lemma rows_of_concat:
  "rows_of h u (concat (map (\<lambda>k. group_rows fl (fst k) (snd k) (G k) days beds_ref) (group_keys adm))) =
     (if (h, u) \<in> set (group_keys adm) then group_rows fl h u (G (h, u)) days beds_ref else [])"
proof -
  let ?f = "\<lambda>k. group_rows fl (fst k) (snd k) (G k) days beds_ref"
  have "filter (\<lambda>r. o_hospital r = h \<and> o_unit_id r = u) (concat (map ?f (group_keys adm))) =
      (if (h, u) \<in> set (group_keys adm) then ?f (h, u) else [])"
  proof (rule filter_concat_keyed[OF group_keys_distinct])
    fix k x
    assume "k \<in> set (group_keys adm)" and "x \<in> set (?f k)"
    then have "o_hospital x = fst k \<and> o_unit_id x = snd k"
      using group_rows_mem by blast
    then show "(o_hospital x = h \<and> o_unit_id x = u) = (k = (h, u))"
      by (cases k) auto
  qed
  then show ?thesis by (simp add: rows_of_def)
qed

lemma rows_of_compute:
  assumes "adm \<noteq> []" and "s \<le> t" and "\<not> compare_raises (with_dates adm)"
    and "compute_daily_true_occupancy adm beds_ref s t = Inr out"
  shows "rows_of h u out =
     (if (h, u) \<in> set (group_keys adm)
      then group_rows (float_column adm beds_ref s t) h u (group_dates h u adm) (date_range s t) beds_ref
      else [])"
proof -
  have out: "out = concat (map (\<lambda>k. group_rows (float_column adm beds_ref s t) (fst k) (snd k)
                          (group_dates (fst k) (snd k) adm) (date_range s t) beds_ref)
        (group_keys adm))"
    using assms(4) compute_nonempty[OF assms(1-3), of beds_ref] by simp
  show ?thesis
    unfolding out
    using rows_of_concat[of h u "float_column adm beds_ref s t"
        "\<lambda>k. group_dates (fst k) (snd k) adm" "date_range s t" beds_ref adm]
    by simp
qed

lemma compute_row_in_group:
  assumes "compute_daily_true_occupancy adm beds_ref s t = Inr out" and "r \<in> set out"
  shows "\<exists>h u. (h, u) \<in> set (group_keys adm) \<and>
           r \<in> set (group_rows (float_column adm beds_ref s t) h u (group_dates h u adm)
                      (date_range s t) beds_ref)"
proof -
  from compute_returns[OF assms(1)] assms(2)
  have ne: "adm \<noteq> []" and win: "s \<le> t" and ok: "\<not> compare_raises (with_dates adm)" by auto
  from compute_nonempty[OF ne win ok, of beds_ref] assms(1)
  have "out = concat (map (\<lambda>k. group_rows (float_column adm beds_ref s t) (fst k) (snd k)
            (group_dates (fst k) (snd k) adm) (date_range s t) beds_ref) (group_keys adm))"
    by simp
  with assms(2) obtain k where "k \<in> set (group_keys adm)"
    and "r \<in> set (group_rows (float_column adm beds_ref s t) (fst k) (snd k)
                 (group_dates (fst k) (snd k) adm) (date_range s t) beds_ref)"
    by auto
  then show ?thesis by (metis prod.collapse)
qed

lemma count_present_insert:
  "count_present (g1 @ p # g2) d =
     count_present (g1 @ g2) d + (if le_date (fst p) d \<and> gt_date (snd p) d then 1 else 0)"
  by (cases p) (simp add: count_present_def)

lemma group_dates_insert:
  "group_dates (hospital e) (unit_id e) (xs @ e # ys) =
     group_dates (hospital e) (unit_id e) xs @ (dt_date (admit_ts e), dt_date (discharge_ts e)) #
     group_dates (hospital e) (unit_id e) ys"
  by (simp add: group_dates_def)

lemma group_dates_append:
  "group_dates h u (xs @ ys) = group_dates h u xs @ group_dates h u ys"
  by (simp add: group_dates_def)

lemma census_with_encounter:
  fixes e :: encounter
  defines "h \<equiv> hospital e" and "u \<equiv> unit_id e"
  assumes win: "s \<le> t" and ok: "\<not> compare_raises (with_dates (xs @ e # ys))"
  shows "\<exists>out. compute_daily_true_occupancy (xs @ e # ys) beds_ref s t = Inr out \<and>
      (\<forall>D. s \<le> D \<and> D \<le> t \<longrightarrow> (\<exists>r\<in>set (rows_of h u out). o_date r = D)) \<and>
      (\<forall>r\<in>set (rows_of h u out). s \<le> o_date r \<and> o_date r \<le> t \<and>
          census r = count_present (group_dates h u (xs @ ys)) (o_date r) +
            (if le_date (dt_date (admit_ts e)) (o_date r) \<and> gt_date (dt_date (discharge_ts e)) (o_date r)
             then 1 else 0))"
proof -
  let ?adm = "xs @ e # ys"
  let ?fl = "float_column ?adm beds_ref s t"
  have ne: "?adm \<noteq> []" by simp
  obtain out where out: "compute_daily_true_occupancy ?adm beds_ref s t = Inr out"
    using compute_nonempty[OF ne win ok] by blast
  have key: "(h, u) \<in> set (group_keys ?adm)"
    by (simp add: group_keys_set h_def u_def image_iff)
  have rows: "rows_of h u out = group_rows ?fl h u (group_dates h u ?adm) (date_range s t) beds_ref"
    using rows_of_compute[OF ne win ok out, of h u] key by simp
  have gd: "group_dates h u ?adm =
      group_dates h u xs @ (dt_date (admit_ts e), dt_date (discharge_ts e)) # group_dates h u ys"
    unfolding h_def u_def by (rule group_dates_insert)
  have cnt: "\<And>d. count_present (group_dates h u ?adm) d =
      count_present (group_dates h u (xs @ ys)) d +
        (if le_date (dt_date (admit_ts e)) d \<and> gt_date (dt_date (discharge_ts e)) d then 1 else 0)"
    by (simp only: gd count_present_insert group_dates_append[symmetric] fst_conv snd_conv)
  have cover: "\<forall>D. s \<le> D \<and> D \<le> t \<longrightarrow> (\<exists>r\<in>set (rows_of h u out). o_date r = D)"
    unfolding rows using group_rows_covers[of _ "date_range s t"] by (simp add: set_date_range)
  have each: "\<forall>r\<in>set (rows_of h u out). s \<le> o_date r \<and> o_date r \<le> t \<and>
          census r = count_present (group_dates h u (xs @ ys)) (o_date r) +
            (if le_date (dt_date (admit_ts e)) (o_date r) \<and> gt_date (dt_date (discharge_ts e)) (o_date r)
             then 1 else 0)"
  proof
    fix r assume "r \<in> set (rows_of h u out)"
    then have "r \<in> set (group_rows ?fl h u (group_dates h u ?adm) (date_range s t) beds_ref)"
      by (simp add: rows)
    from group_rows_mem[OF this] show "s \<le> o_date r \<and> o_date r \<le> t \<and>
          census r = count_present (group_dates h u (xs @ ys)) (o_date r) +
            (if le_date (dt_date (admit_ts e)) (o_date r) \<and> gt_date (dt_date (discharge_ts e)) (o_date r)
             then 1 else 0)"
      by (simp add: set_date_range cnt)
  qed
  from out cover each show ?thesis by blast
qed

lemma census_contribution:
  assumes "\<And>d. (le_date (dt_date (admit_ts e)) d \<and> gt_date (dt_date (discharge_ts e)) d) = P d"
    and "s \<le> t" and "\<not> compare_raises (with_dates (xs @ e # ys))"
  shows "\<exists>out. compute_daily_true_occupancy (xs @ e # ys) beds_ref s t = Inr out \<and>
      (\<forall>D. s \<le> D \<and> D \<le> t \<longrightarrow> (\<exists>r\<in>set (rows_of (hospital e) (unit_id e) out). o_date r = D)) \<and>
      (\<forall>r\<in>set (rows_of (hospital e) (unit_id e) out). s \<le> o_date r \<and> o_date r \<le> t \<and>
          census r = count_present (group_dates (hospital e) (unit_id e) (xs @ ys)) (o_date r) +
            (if P (o_date r) then 1 else 0))"
  using census_with_encounter[OF assms(2,3), of beds_ref] by (simp only: assms(1))

lemma attach_occ_pct:
  assumes "0 \<le> sb"
  shows "(occ_pct (attach_occ (c, sb)) = NaN \<longleftrightarrow> sb = 0) \<and>
         (sb \<noteq> 0 \<longrightarrow> occ_pct (attach_occ (c, sb)) =
             Finite (real_of_int (c_census c) / real_of_int sb * 100))"
  using assms by (simp add: attach_occ_def Let_def truediv_def)

lemma group_rows_staffed:
  assumes "r \<in> set (group_rows fl h u g days beds_ref)"
    and bound: "\<forall>b\<in>set beds_ref. baseline_staffed_beds b \<le> 2 ^ 53"
  shows "((\<exists>b\<in>set beds_ref. cap_hospital b = o_hospital r \<and> cap_unit_id b = o_unit_id r \<and>
             staffed_beds r = int (baseline_staffed_beds b)) \<or>
          ((\<forall>b\<in>set beds_ref. \<not> (cap_hospital b = o_hospital r \<and> cap_unit_id b = o_unit_id r)) \<and>
             staffed_beds r = 0)) \<and>
         (occ_pct r = NaN \<longleftrightarrow> staffed_beds r = 0) \<and>
         (staffed_beds r \<noteq> 0 \<longrightarrow>
            occ_pct r = Finite (real_of_int (census r) / real_of_int (staffed_beds r) * 100))"
proof -
  from assms(1) obtain m where m: "m \<in> set (merge_left census_key (census_list h u g days) beds_ref)"
    and r0: "r = attach_occ (fill_staffed (to_dtype fl m))"
    by (auto simp: group_rows_def)
  note ex = to_dtype_exact[OF bound m, of fl]
  from r0 ex have r: "r = attach_occ (fill_staffed m)" by simp
  have fill: "fillna0 (snd m) = (case snd m of None \<Rightarrow> 0 | Some v \<Rightarrow> int v)" using ex by simp
  have key: "census_key (fst m) = (o_hospital r, o_unit_id r)"
    by (simp add: r attach_occ_def fill_staffed_def Let_def census_key_def)
  have sb: "staffed_beds r = fillna0 (snd m)"
    by (simp add: r attach_occ_def fill_staffed_def Let_def)
  have cen: "census r = c_census (fst m)"
    by (simp add: r attach_occ_def fill_staffed_def Let_def)
  have nonneg: "0 \<le> fillna0 (snd m)"
    unfolding fill by (cases "snd m") simp_all
  have join: "(\<exists>b\<in>set beds_ref. cap_hospital b = o_hospital r \<and> cap_unit_id b = o_unit_id r \<and>
             staffed_beds r = int (baseline_staffed_beds b)) \<or>
          ((\<forall>b\<in>set beds_ref. \<not> (cap_hospital b = o_hospital r \<and> cap_unit_id b = o_unit_id r)) \<and>
             staffed_beds r = 0)"
    using merge_left_snd[OF m] unfolding key sb fill by auto
  have "r = attach_occ (fst m, fillna0 (snd m))"
    by (simp add: r fill_staffed_def)
  with attach_occ_pct[OF nonneg, of "fst m"] sb cen
  have pct: "(occ_pct r = NaN \<longleftrightarrow> staffed_beds r = 0) \<and>
         (staffed_beds r \<noteq> 0 \<longrightarrow>
            occ_pct r = Finite (real_of_int (census r) / real_of_int (staffed_beds r) * 100))"
    by simp
  from join pct show ?thesis by blast
qed

section \<open>Counting per key, the query and the store\<close>

lemma admit_dates_count:
  "length (filter (\<lambda>x. x = d) (admit_dates adm)) = admissions_on adm d"
proof (induction adm)
  case Nil
  then show ?case by (simp add: admit_dates_def admissions_on_def List.map_filter_simps)
next
  case (Cons e adm)
  have IH: "length (filter (\<lambda>x. x = d) (List.map_filter (\<lambda>e. dt_date (admit_ts e)) adm)) =
      length (filter (\<lambda>e. case admit_ts e of None \<Rightarrow> False | Some t \<Rightarrow> on_day t d) adm)"
    using Cons by (simp add: admit_dates_def admissions_on_def)
  show ?case
  proof (cases "admit_ts e")
    case None
    then show ?thesis
      using IH by (simp add: admit_dates_def admissions_on_def List.map_filter_simps dt_date_def)
  next
    case (Some t)
    have "(dt_date (Some t) = Some d) = on_day t d" by (simp add: on_day_iff)
    then have "(t div ns_per_day = d) = on_day t d" by (simp add: dt_date_def)
    then show ?thesis
      using IH Some by (simp add: admit_dates_def admissions_on_def List.map_filter_simps dt_date_def)
  qed
qed

lemma admission_days_set: "admission_days adm = set (admit_dates adm)"
proof -
  have "\<And>d. (1 \<le> admissions_on adm d) = (d \<in> set (admit_dates adm))"
  proof -
    fix d
    have "(1 \<le> length (filter (\<lambda>x. x = d) (admit_dates adm))) = (d \<in> set (admit_dates adm))"
      by (induction "admit_dates adm") (auto simp: filter_empty_conv Suc_le_eq length_greater_0_conv)
    then show "(1 \<le> admissions_on adm d) = (d \<in> set (admit_dates adm))"
      by (simp add: admit_dates_count)
  qed
  then show ?thesis by (auto simp: admission_days_def)
qed

lemma sum_counts_length:
  "(\<Sum>d\<in>set ks. length (filter (\<lambda>x. x = d) ks)) = length ks"
proof -
  have "(\<Sum>d\<in>set ks. count_list ks d) = length ks"
    by (rule sum_count_set) simp_all
  moreover have "\<And>d. count_list ks d = length (filter (\<lambda>x. x = d) ks)"
    by (induction ks) simp_all
  ultimately show ?thesis by simp
qed

lemma groupby_size_sum:
  "sum_list (map (\<lambda>(d, n). real n) (groupby_size ks)) =
     (\<Sum>d\<in>set ks. real (length (filter (\<lambda>x. x = d) ks)))"
proof -
  have "sum_list (map (\<lambda>(d, n). real n) (groupby_size ks)) =
        sum_list (map (\<lambda>d. real (length (filter (\<lambda>x. x = d) ks))) (sort (remdups ks)))"
    by (simp add: groupby_size_def comp_def)
  also have "\<dots> = (\<Sum>d\<in>set (sort (remdups ks)). real (length (filter (\<lambda>x. x = d) ks)))"
    by (rule sum_list_distinct_conv_sum_set) simp
  finally show ?thesis by simp
qed

lemma groupby_size_length: "length (groupby_size ks) = card (set ks)"
  by (simp add: groupby_size_def length_remdups_card_conv)

lemma daily_arrivals_pos:
  assumes "a \<in> set (daily_arrivals adm)"
  shows "0 < arrivals a"
proof -
  let ?ks = "List.map_filter
             (\<lambda>e. case dt_date (admit_ts e) of
                     None \<Rightarrow> None
                   | Some d \<Rightarrow> Some (hospital e, unit_id e, d)) adm"
  from assms obtain k where k: "k \<in> set ?ks" and a: "arrivals a = int (length (filter (\<lambda>x. x = k) ?ks))"
    by (auto simp: daily_arrivals_def groupby_size_def)
  from k have "filter (\<lambda>x. x = k) ?ks \<noteq> []" by (simp add: filter_empty_conv)
  with a show ?thesis by simp
qed

lemma occ_proxy_denominator:
  assumes "r \<in> set (occ_proxy adm beds_ref)"
  shows "(p_baseline_staffed_beds r = None \<longrightarrow> p_occ_proxy r = NaN) \<and>
         (p_baseline_staffed_beds r = Some 0 \<longrightarrow> p_occ_proxy r = Finite (12 / 10))"
proof -
  from assms obtain a b where m: "(a, b) \<in> set (merge_left arrivals_key (daily_arrivals adm) beds_ref)"
    and r: "r = arrivals_row.extend a
            \<lparr>p_baseline_staffed_beds = b,
             p_occ_proxy = clip_upper (12 / 10) (truediv (arrivals a) (map_option int b))\<rparr>"
    by (auto simp: occ_proxy_def)
  from merge_left_fst[OF m] have "0 < arrivals a" by (simp add: daily_arrivals_pos)
  then show ?thesis
    by (cases b) (simp_all add: r arrivals_row.extend_def truediv_def)
qed

lemma foldl_sql_and_true:
  "(foldl sql_and a bs = Some True) = (a = Some True \<and> (\<forall>b\<in>set bs. b = Some True))"
proof (induction bs arbitrary: a)
  case Nil
  then show ?case by simp
next
  case (Cons b bs)
  have "(sql_and a b = Some True) = (a = Some True \<and> b = Some True)"
    by (auto simp: sql_and_def)
  with Cons show ?case by auto
qed

lemma where_clause_true:
  "(where_clause sqlite_date conds r = Some True) =
     (\<forall>c\<in>set conds. eval_cond sqlite_date r c = Some True)"
  by (simp add: where_clause_def foldl_sql_and_true)

lemma where_build_query:
  "(where_clause sqlite_date (build_query date_from date_to hospital_arg unit_arg) r = Some True) =
     passes_filters sqlite_date date_from date_to hospital_arg unit_arg r"
proof -
  have f: "(\<forall>c\<in>set (case date_from of None \<Rightarrow> [] | Some d \<Rightarrow> [Admit_date_ge d]).
              eval_cond sqlite_date r c = Some True) =
           (case date_from of None \<Rightarrow> True
            | Some d \<Rightarrow> (case sqlite_date (admit_ts r) of None \<Rightarrow> False | Some a \<Rightarrow> d \<le> a))"
    by (cases date_from; cases "sqlite_date (admit_ts r)") simp_all
  have t: "(\<forall>c\<in>set (case date_to of None \<Rightarrow> [] | Some d \<Rightarrow> [Admit_date_le d]).
              eval_cond sqlite_date r c = Some True) =
           (case date_to of None \<Rightarrow> True
            | Some d \<Rightarrow> (case sqlite_date (admit_ts r) of None \<Rightarrow> False | Some a \<Rightarrow> a \<le> d))"
    by (cases date_to; cases "sqlite_date (admit_ts r)") simp_all
  have h: "(\<forall>c\<in>set (case hospital_arg of None \<Rightarrow> []
                      | Some h \<Rightarrow> if h \<noteq> ''All'' then [Hospital_eq h] else []).
              eval_cond sqlite_date r c = Some True) =
           (hospital_arg = None \<or> hospital_arg = Some ''All'' \<or> hospital_arg = Some (hospital r))"
    by (cases hospital_arg) auto
  have u: "(\<forall>c\<in>set (case unit_arg of None \<Rightarrow> []
                      | Some u \<Rightarrow> if u \<noteq> ''All'' then [Unit_eq u] else []).
              eval_cond sqlite_date r c = Some True) =
           (unit_arg = None \<or> unit_arg = Some ''All'' \<or> unit_arg = Some (unit_id r))"
    by (cases unit_arg) auto
  show ?thesis
    unfolding where_clause_true build_query_def passes_filters_def set_append ball_Un f t h u
    by (rule refl)
qed


lemma zip_dates:
  "map (\<lambda>(e, a, d). admission.extend e \<lparr>admit_d = a, discharge_d = d\<rparr>)
     (zip rows (zip (map (\<lambda>e. dt_date (admit_ts e)) rows) (map (\<lambda>e. dt_date (discharge_ts e)) rows)))
   = with_dates rows"
  by (induction rows) (simp_all add: with_dates_def)

lemma set_column_new:
  "set_column (length st) name col (st @ Adm rows cols # zs) =
     st @ Adm rows (AList.update name col cols) # zs"
  by (simp add: set_column_def lookup_def assign_def)

lemma dated_rows_new:
  "dated_rows (st @ Adm rows
       (AList.update ''discharge_d'' (map (\<lambda>e. dt_date (discharge_ts e)) rows)
          (AList.update ''admit_d'' (map (\<lambda>e. dt_date (admit_ts e)) rows) cols)) # zs) (length st)
   = Some (with_dates rows)"
  by (simp add: dated_rows_def lookup_def AList.update_conv' zip_dates)

lemma compute_on_frames:
  assumes "lookup st adm = Some (Adm rows cols)" and "lookup st beds_ref = Some (Beds bs)"
  shows "compute_daily_true_occupancy_on st adm beds_ref s t =
     (if rows = [] then (Inr (length st), st @ [Occupancy []])
      else
        (case compute_daily_true_occupancy rows bs s t of
           Inl err \<Rightarrow>
             (Inl err, st @ Adm rows (df_columns rows cols) #
                         (if err = TypeError then [] else [Census []]))
         | Inr out \<Rightarrow>
             (Inr (length st + 2),
              st @ [Adm rows (df_columns rows cols),
                    Census (concat (census_groups (with_dates rows) (date_range s t))),
                    Occupancy out])))"
proof (cases "rows = []")
  case True
  then show ?thesis
    using assms by (simp add: compute_daily_true_occupancy_on_def alloc_def)
next
  case False
  have st3: "set_column (length st) ''discharge_d'' (map (\<lambda>e. dt_date (discharge_ts e)) rows)
          (set_column (length st) ''admit_d'' (map (\<lambda>e. dt_date (admit_ts e)) rows)
             (st @ [Adm rows cols])) = st @ [Adm rows (df_columns rows cols)]"
    by (simp add: set_column_new df_columns_def)
  have dr: "dated_rows (st @ [Adm rows (df_columns rows cols)]) (length st) = Some (with_dates rows)"
    unfolding df_columns_def by (rule dated_rows_new)
  show ?thesis
  proof (cases "date_range s t \<noteq> [] \<and> compare_raises (with_dates rows)")
    case True
    then show ?thesis
      using assms False
      by (simp add: compute_daily_true_occupancy_on_def alloc_def st3 dr
          compute_daily_true_occupancy_def Let_def)
  next
    case nr: False
    show ?thesis
    proof (cases "concat (census_groups (with_dates rows) (date_range s t)) = []")
      case True
      then show ?thesis
        using assms False nr
        by (simp add: compute_daily_true_occupancy_on_def alloc_def st3 dr
            compute_daily_true_occupancy_def Let_def)
    next
      case ne: False
      then show ?thesis
        using assms False nr
        by (simp add: compute_daily_true_occupancy_on_def alloc_def st3 dr
            compute_daily_true_occupancy_def Let_def assign_def list_update_append)
    qed
  qed
qed

lemma compute_on_other:
  assumes "\<not> (\<exists>rows cols bs. lookup st adm = Some (Adm rows cols) \<and> lookup st beds_ref = Some (Beds bs))"
  shows "compute_daily_true_occupancy_on st adm beds_ref s t = (Inl AttributeError, st)"
  using assms
  by (auto simp: compute_daily_true_occupancy_on_def split: option.splits frame.splits)

section \<open>The worked example, evaluated\<close>

lemma ex1: "dt_date (admit_ts ex_encounter) = Some 19723"
  by (simp add: ex_encounter_def dt_date_def ns_per_day_def)

lemma ex2: "dt_date (discharge_ts ex_encounter) = Some 19725"
  by (simp add: ex_encounter_def dt_date_def ns_per_day_def)

lemma ex_on_day:
  "on_day 1704103200000000000 19723" "on_day 1704268800000000000 19725"
  "on_day 1704110400000000000 19723" "on_day 1704135600000000000 19723"
  by (simp_all add: on_day_def)

lemma ex_range: "date_range 19723 19725 = [19723, 19724, 19725]"
  by (simp add: date_range_def upto.simps)

lemma ex_range_one: "date_range 19723 19723 = [19723]"
  by (simp add: date_range_def upto.simps)

lemma ex_range_wide: "date_range 19722 19726 = [19722, 19723, 19724, 19725, 19726]"
  by (simp add: date_range_def upto.simps)

lemma ex_key_order: "sort [(''General'', ''ICU''), (''General'', ''ED'')] =
    [(''General'', ''ED''), (''General'', ''ICU'')]"
  by code_simp

lemmas ex_eval =
  compute_daily_true_occupancy_def Let_def with_dates_def census_groups_def groupby_def
  ex_range ex_range_one ex_range_wide census_list_def count_present_def merge_left_def merged_column_def
  has_missing_def to_dtype_def compare_raises_def ex_beds_def ex_beds_twice_def ex_beds_big_def
  census_key_def fill_staffed_def fillna0_def astype_int64_def attach_occ_def truediv_def
  admission.extend_def le_date_def gt_date_def ex_encounter_def ex_same_day_def
  ex_no_discharge_def ex_no_admit_def ex_later_def dt_date_def ns_per_day_def rows_of_def
  group_dates_def

lemma ex_compute: "compute_daily_true_occupancy [ex_encounter] ex_beds 19723 19725 =
  Inr [\<lparr>o_hospital = ''General'', o_unit_id = ''ICU'', o_date = 19723, census = 1, staffed_beds = 2, occ_pct = Finite 50\<rparr>,
       \<lparr>o_hospital = ''General'', o_unit_id = ''ICU'', o_date = 19724, census = 1, staffed_beds = 2, occ_pct = Finite 50\<rparr>,
       \<lparr>o_hospital = ''General'', o_unit_id = ''ICU'', o_date = 19725, census = 0, staffed_beds = 2, occ_pct = Finite 0\<rparr>]"
  by (simp add: ex_eval)

lemma ex_compute_wide:
  "compute_daily_true_occupancy [ex_same_day, ex_encounter] ex_beds 19722 19726 =
  Inr [\<lparr>o_hospital = ''General'', o_unit_id = ''ICU'', o_date = 19722, census = 0, staffed_beds = 2, occ_pct = Finite 0\<rparr>,
       \<lparr>o_hospital = ''General'', o_unit_id = ''ICU'', o_date = 19723, census = 1, staffed_beds = 2, occ_pct = Finite 50\<rparr>,
       \<lparr>o_hospital = ''General'', o_unit_id = ''ICU'', o_date = 19724, census = 1, staffed_beds = 2, occ_pct = Finite 50\<rparr>,
       \<lparr>o_hospital = ''General'', o_unit_id = ''ICU'', o_date = 19725, census = 0, staffed_beds = 2, occ_pct = Finite 0\<rparr>,
       \<lparr>o_hospital = ''General'', o_unit_id = ''ICU'', o_date = 19726, census = 0, staffed_beds = 2, occ_pct = Finite 0\<rparr>]"
  by (simp add: ex_eval)

lemma ex_compute_no_beds: "compute_daily_true_occupancy [ex_encounter] [] 19723 19725 =
  Inr [\<lparr>o_hospital = ''General'', o_unit_id = ''ICU'', o_date = 19723, census = 1, staffed_beds = 0, occ_pct = NaN\<rparr>,
       \<lparr>o_hospital = ''General'', o_unit_id = ''ICU'', o_date = 19724, census = 1, staffed_beds = 0, occ_pct = NaN\<rparr>,
       \<lparr>o_hospital = ''General'', o_unit_id = ''ICU'', o_date = 19725, census = 0, staffed_beds = 0, occ_pct = NaN\<rparr>]"
  by (simp add: ex_eval)

lemma ex_compute_same_day: "compute_daily_true_occupancy [ex_same_day] ex_beds 19723 19725 =
  Inr [\<lparr>o_hospital = ''General'', o_unit_id = ''ICU'', o_date = 19723, census = 0, staffed_beds = 2, occ_pct = Finite 0\<rparr>,
       \<lparr>o_hospital = ''General'', o_unit_id = ''ICU'', o_date = 19724, census = 0, staffed_beds = 2, occ_pct = Finite 0\<rparr>,
       \<lparr>o_hospital = ''General'', o_unit_id = ''ICU'', o_date = 19725, census = 0, staffed_beds = 2, occ_pct = Finite 0\<rparr>]"
  by (simp add: ex_eval)




lemma ex_compute_empty_window:
  "compute_daily_true_occupancy [ex_encounter] ex_beds 19725 19723 = Inl KeyError"
  by (rule compute_empty_window) simp_all

lemma ex_compute_big:
  "compute_daily_true_occupancy [ex_encounter, ex_later] ex_beds_big 19723 19723 =
  Inr [\<lparr>o_hospital = ''General'', o_unit_id = ''ED'', o_date = 19723, census = 0, staffed_beds = 0, occ_pct = NaN\<rparr>,
       \<lparr>o_hospital = ''General'', o_unit_id = ''ICU'', o_date = 19723, census = 1,
        staffed_beds = 9007199254740992, occ_pct = Finite (100 / 9007199254740992)\<rparr>]"
  by (simp add: ex_eval ex_key_order float64_big)

lemma ex_admissions_per_day:
  "admissions_per_day [ex_encounter, ex_same_day, ex_later] = Finite (3 / 2)"
  by (simp add: admissions_per_day_def admit_dates_def List.map_filter_simps groupby_size_def
      series_mean_def ex_encounter_def ex_same_day_def ex_later_def dt_date_def ns_per_day_def)

lemma ex_admissions_on:
  "admissions_on [ex_encounter, ex_same_day, ex_later] 19723 = 2"
  "admissions_on [ex_encounter, ex_same_day, ex_later] 19724 = 0"
  "admissions_on [ex_encounter, ex_same_day, ex_later] 19725 = 1"
  by (simp_all add: admissions_on_def on_day_def ex_encounter_def ex_same_day_def ex_later_def)

lemma ex_daily_arrivals:
  "daily_arrivals [ex_encounter] = [\<lparr>a_hospital = ''General'', a_unit_id = ''ICU'', a_date = 19723, arrivals = 1\<rparr>]"
  by (simp add: daily_arrivals_def List.map_filter_simps groupby_size_def ex_encounter_def dt_date_def ns_per_day_def)

lemma proxy_no_beds:
  "occ_proxy [ex_encounter] [] =
     [\<lparr>a_hospital = ''General'', a_unit_id = ''ICU'', a_date = 19723, arrivals = 1,
       p_baseline_staffed_beds = None, p_occ_proxy = NaN\<rparr>]"
  by (simp add: occ_proxy_def ex_daily_arrivals merge_left_def arrivals_key_def
      truediv_def arrivals_row.extend_def)

lemmas ex_query_eval =
  load_admissions_def read_sql_def where_clause_def build_query_def sql_and_def coerce_ts_def
  ex_table_def ex_table_malformed_def ex_to_datetime_def ex_sqlite_date_def dt_date_def
  ns_per_day_def ex_encounter_def ex_no_discharge_def ex_no_admit_def ex_later_def

lemma ex_load_icu:
  "load_admissions ex_sqlite_date ex_to_datetime ex_table (Some 19723) (Some 19725)
     (Some ''All'') (Some ''ICU'') = [ex_encounter, ex_no_discharge]"
  by (simp add: ex_query_eval)

lemma ex_load_day:
  "load_admissions ex_sqlite_date ex_to_datetime ex_table (Some 19724) (Some 19725) None None =
     [ex_later]"
  by (simp add: ex_query_eval)



lemma ex_compute_on:
  "compute_daily_true_occupancy_on ex_store 0 1 19723 19725 =
     (Inr 4,
      [Adm [ex_encounter] [], Beds ex_beds,
       Adm [ex_encounter] [(''admit_d'', [Some 19723]), (''discharge_d'', [Some 19725])],
       Census [\<lparr>c_hospital = ''General'', c_unit_id = ''ICU'', c_date = 19723, c_census = 1\<rparr>,
               \<lparr>c_hospital = ''General'', c_unit_id = ''ICU'', c_date = 19724, c_census = 1\<rparr>,
               \<lparr>c_hospital = ''General'', c_unit_id = ''ICU'', c_date = 19725, c_census = 0\<rparr>],
       Occupancy
         [\<lparr>o_hospital = ''General'', o_unit_id = ''ICU'', o_date = 19723, census = 1, staffed_beds = 2, occ_pct = Finite 50\<rparr>,
          \<lparr>o_hospital = ''General'', o_unit_id = ''ICU'', o_date = 19724, census = 1, staffed_beds = 2, occ_pct = Finite 50\<rparr>,
          \<lparr>o_hospital = ''General'', o_unit_id = ''ICU'', o_date = 19725, census = 0, staffed_beds = 2, occ_pct = Finite 0\<rparr>]])"
proof -
  have a: "lookup ex_store 0 = Some (Adm [ex_encounter] [])" by (simp add: ex_store_def lookup_def)
  have b: "lookup ex_store 1 = Some (Beds ex_beds)" by (simp add: ex_store_def lookup_def)
  have c: "concat (census_groups (with_dates [ex_encounter]) (date_range 19723 19725)) =
      [\<lparr>c_hospital = ''General'', c_unit_id = ''ICU'', c_date = 19723, c_census = 1\<rparr>,
       \<lparr>c_hospital = ''General'', c_unit_id = ''ICU'', c_date = 19724, c_census = 1\<rparr>,
       \<lparr>c_hospital = ''General'', c_unit_id = ''ICU'', c_date = 19725, c_census = 0\<rparr>]"
    by (simp add: ex_eval)
  have d: "df_columns [ex_encounter] [] = [(''admit_d'', [Some 19723]), (''discharge_d'', [Some 19725])]"
    by (simp add: df_columns_def ex1 ex2)
  show ?thesis
    unfolding compute_on_frames[OF a b] by (simp add: ex_compute c d) (simp add: ex_store_def)
qed

section \<open>Properties of the census engine\<close>

text \<open>
  C1, the half-open interval law. Take any encounter \<open>e\<close> of the input whose two timestamps
  are valid, the admit timestamp on calendar day \<open>A\<close> and the discharge timestamp on calendar
  day \<open>B\<close>, \<open>A < B\<close>, and a window \<open>date_start \<le> date_end\<close>. The call returns rows; the
  group of \<open>e\<close> has a row for every day of the window; and in every row of that group the
  census is the number of the other encounters of the group present on that day, plus one
  exactly when \<open>A \<le> D < B\<close> for the day \<open>D\<close> of the row. So \<open>e\<close> adds one to each of the days
  \<open>A, ..., B - 1\<close> of the window and nothing to day \<open>B\<close> or later.
\<close>

theorem half_open_interval_law:
  assumes "admit_ts e = Some ta" and "discharge_ts e = Some tb"
    and "on_day ta A" and "on_day tb B" and "A < B"
    and "date_start \<le> date_end"
  shows "\<exists>out. compute_daily_true_occupancy (xs @ e # ys) beds_ref date_start date_end = Inr out \<and>
      (\<forall>D. date_start \<le> D \<and> D \<le> date_end \<longrightarrow>
         (\<exists>r\<in>set (rows_of (hospital e) (unit_id e) out). o_date r = D)) \<and>
      (\<forall>r\<in>set (rows_of (hospital e) (unit_id e) out).
          date_start \<le> o_date r \<and> o_date r \<le> date_end \<and>
          census r = count_present (group_dates (hospital e) (unit_id e) (xs @ ys)) (o_date r) +
            (if A \<le> o_date r \<and> o_date r < B then 1 else 0))"
proof -
  have a: "dt_date (admit_ts e) = Some A" using assms(1,3) by (simp add: dt_date_on_day)
  have b: "dt_date (discharge_ts e) = Some B" using assms(2,4) by (simp add: dt_date_on_day)
  have p: "\<And>d. (le_date (dt_date (admit_ts e)) d \<and> gt_date (dt_date (discharge_ts e)) d) = (A \<le> d \<and> d < B)"
    by (simp add: a b le_date_def gt_date_def)
  have ok: "\<not> compare_raises (with_dates (xs @ e # ys))"
    using assms(1,2) by (auto simp: compare_raises_with_dates)
  from census_contribution[OF p assms(6) ok, of beds_ref]
  show ?thesis .
qed

theorem half_open_interval_law_witness:
  "admit_ts ex_encounter = Some 1704103200000000000 \<and>
   discharge_ts ex_encounter = Some 1704268800000000000 \<and>
   on_day 1704103200000000000 19723 \<and> on_day 1704268800000000000 19725 \<and>
   (19723 :: int) < 19725 \<and> (19722 :: int) \<le> 19726 \<and>
   (\<exists>out. compute_daily_true_occupancy ([ex_same_day] @ ex_encounter # []) ex_beds 19722 19726 =
             Inr out \<and>
      map o_date (rows_of ''General'' ''ICU'' out) = [19722, 19723, 19724, 19725, 19726] \<and>
      map census (rows_of ''General'' ''ICU'' out) = [0, 1, 1, 0, 0] \<and>
      map (count_present (group_dates ''General'' ''ICU'' ([ex_same_day] @ [])))
        [19722, 19723, 19724, 19725, 19726] = [0, 0, 0, 0, 0])"
proof -
  have a: "admit_ts ex_encounter = Some 1704103200000000000"
    and d: "discharge_ts ex_encounter = Some 1704268800000000000"
    by (simp_all add: ex_encounter_def)
  show ?thesis
    using half_open_interval_law[OF a d ex_on_day(1) ex_on_day(2), where xs = "[ex_same_day]"
        and ys = "[]" and beds_ref = ex_beds and date_start = 19722 and date_end = 19726]
      a d ex_on_day ex_compute_wide
    by (simp add: rows_of_def group_dates_def count_present_def ex_same_day_def dt_date_def
        ns_per_day_def le_date_def gt_date_def)
qed




text \<open>
  C3, the capacity join, does not hold as stated. With \<open>2 ^ 53 + 1\<close> staffed beds in the unit
  ICU and no capacity record for the unit ED, the merged column is a \<open>float64\<close> column and
  the row of ICU comes back with \<open>2 ^ 53\<close> staffed beds, one less than its capacity record.
\<close>

theorem capacity_join_counterexample:
  "compute_daily_true_occupancy [ex_encounter, ex_later] ex_beds_big 19723 19723 =
     Inr [\<lparr>o_hospital = ''General'', o_unit_id = ''ED'', o_date = 19723, census = 0, staffed_beds = 0, occ_pct = NaN\<rparr>,
       \<lparr>o_hospital = ''General'', o_unit_id = ''ICU'', o_date = 19723, census = 1,
        staffed_beds = 9007199254740992, occ_pct = Finite (100 / 9007199254740992)\<rparr>] \<and>
   map baseline_staffed_beds ex_beds_big = [9007199254740993]"
  using ex_compute_big by (simp add: ex_beds_big_def)

text \<open>
  C3, the capacity join, as amended. When no capacity record has more than \<open>2 ^ 53\<close> staffed
  beds, then in every row returned \<open>staffed_beds\<close> is the \<open>baseline_staffed_beds\<close> of a
  capacity record with the key of the row, or \<open>0\<close> when no record has that key; \<open>occ_pct\<close> is
  \<open>NaN\<close> exactly when \<open>staffed_beds\<close> is \<open>0\<close>, and \<open>census / staffed_beds * 100\<close> otherwise.
  Every group of the input has its rows for every day of the window, with or without a
  capacity record.
\<close>

theorem capacity_join:
  assumes "compute_daily_true_occupancy adm beds_ref date_start date_end = Inr out"
    and "\<forall>b\<in>set beds_ref. baseline_staffed_beds b \<le> 2 ^ 53"
  shows "(\<forall>r\<in>set out.
           ((\<exists>b\<in>set beds_ref. cap_hospital b = o_hospital r \<and> cap_unit_id b = o_unit_id r \<and>
               staffed_beds r = int (baseline_staffed_beds b)) \<or>
            ((\<forall>b\<in>set beds_ref. \<not> (cap_hospital b = o_hospital r \<and> cap_unit_id b = o_unit_id r)) \<and>
               staffed_beds r = 0)) \<and>
           (occ_pct r = NaN \<longleftrightarrow> staffed_beds r = 0) \<and>
           (staffed_beds r \<noteq> 0 \<longrightarrow>
              occ_pct r = Finite (real_of_int (census r) / real_of_int (staffed_beds r) * 100))) \<and>
         (\<forall>e\<in>set adm. \<forall>D. date_start \<le> D \<and> D \<le> date_end \<longrightarrow>
            (\<exists>r\<in>set out. o_hospital r = hospital e \<and> o_unit_id r = unit_id e \<and> o_date r = D))"
proof (intro conjI ballI allI impI)
  fix r assume r: "r \<in> set out"
  from compute_row_in_group[OF assms(1) r] obtain h u where
    "r \<in> set (group_rows (float_column adm beds_ref date_start date_end) h u (group_dates h u adm)
               (date_range date_start date_end) beds_ref)"
    by blast
  note g = group_rows_staffed[OF this assms(2)]
  from g show "(\<exists>b\<in>set beds_ref. cap_hospital b = o_hospital r \<and> cap_unit_id b = o_unit_id r \<and>
               staffed_beds r = int (baseline_staffed_beds b)) \<or>
            ((\<forall>b\<in>set beds_ref. \<not> (cap_hospital b = o_hospital r \<and> cap_unit_id b = o_unit_id r)) \<and>
               staffed_beds r = 0)" by blast
  from g show "(occ_pct r = NaN) = (staffed_beds r = 0)" by blast
  assume "staffed_beds r \<noteq> 0"
  with g show "occ_pct r = Finite (real_of_int (census r) / real_of_int (staffed_beds r) * 100)" by blast
next
  fix e D assume e: "e \<in> set adm" and D: "date_start \<le> D \<and> D \<le> date_end"
  then have ne: "adm \<noteq> []" by auto
  from compute_returns[OF assms(1)] ne
  have win: "date_start \<le> date_end" and ok: "\<not> compare_raises (with_dates adm)" by auto
  have key: "(hospital e, unit_id e) \<in> set (group_keys adm)"
    using e by (simp add: group_keys_set image_iff) blast
  have rows: "rows_of (hospital e) (unit_id e) out =
      group_rows (float_column adm beds_ref date_start date_end) (hospital e) (unit_id e)
        (group_dates (hospital e) (unit_id e) adm) (date_range date_start date_end) beds_ref"
    using rows_of_compute[OF ne win ok assms(1), of "hospital e" "unit_id e"] key by simp
  from D have "D \<in> set (date_range date_start date_end)" by (simp add: set_date_range)
  from group_rows_covers[OF this, of "float_column adm beds_ref date_start date_end"
      "hospital e" "unit_id e" "group_dates (hospital e) (unit_id e) adm" beds_ref]
  obtain r where "r \<in> set (rows_of (hospital e) (unit_id e) out)" and "o_date r = D"
    unfolding rows by blast
  then show "\<exists>r\<in>set out. o_hospital r = hospital e \<and> o_unit_id r = unit_id e \<and> o_date r = D"
    by (auto simp: rows_of_def)
qed

theorem capacity_join_witness:
  "compute_daily_true_occupancy [ex_encounter] ex_beds 19723 19725 =
     Inr [\<lparr>o_hospital = ''General'', o_unit_id = ''ICU'', o_date = 19723, census = 1, staffed_beds = 2, occ_pct = Finite 50\<rparr>,
       \<lparr>o_hospital = ''General'', o_unit_id = ''ICU'', o_date = 19724, census = 1, staffed_beds = 2, occ_pct = Finite 50\<rparr>,
       \<lparr>o_hospital = ''General'', o_unit_id = ''ICU'', o_date = 19725, census = 0, staffed_beds = 2, occ_pct = Finite 0\<rparr>] \<and>
   compute_daily_true_occupancy [ex_encounter] [] 19723 19725 =
     Inr [\<lparr>o_hospital = ''General'', o_unit_id = ''ICU'', o_date = 19723, census = 1, staffed_beds = 0, occ_pct = NaN\<rparr>,
       \<lparr>o_hospital = ''General'', o_unit_id = ''ICU'', o_date = 19724, census = 1, staffed_beds = 0, occ_pct = NaN\<rparr>,
       \<lparr>o_hospital = ''General'', o_unit_id = ''ICU'', o_date = 19725, census = 0, staffed_beds = 0, occ_pct = NaN\<rparr>] \<and>
   map baseline_staffed_beds ex_beds = [2] \<and> (2 :: nat) \<le> 2 ^ 53"
  using capacity_join[OF ex_compute] capacity_join[OF ex_compute_no_beds] ex_compute ex_compute_no_beds
  by (simp add: ex_beds_def)

text \<open>
  C6, empty input. On an empty encounter collection the call returns no rows at all,
  whatever the capacity table and the window.
\<close>

theorem empty_input:
  "compute_daily_true_occupancy [] beds_ref date_start date_end = Inr []"
  by (simp add: compute_daily_true_occupancy_def)

theorem empty_input_witness:
  "compute_daily_true_occupancy [] ex_beds 19723 19725 = Inr []"
  using empty_input[of ex_beds 19723 19725] by simp

text \<open>
  C7, the single-day stay. An encounter whose two timestamps fall on the same calendar day
  adds nothing to the census of any day of a window \<open>date_start \<le> date_end\<close>: in every row
  of its group (there is one for every day of the window) the census is the number of the
  other encounters of the group present on that day.
\<close>

theorem single_day_stay:
  assumes "admit_ts e = Some ta" and "discharge_ts e = Some tb"
    and "on_day ta A" and "on_day tb A"
    and "date_start \<le> date_end"
  shows "\<exists>out. compute_daily_true_occupancy (xs @ e # ys) beds_ref date_start date_end = Inr out \<and>
      (\<forall>D. date_start \<le> D \<and> D \<le> date_end \<longrightarrow>
         (\<exists>r\<in>set (rows_of (hospital e) (unit_id e) out). o_date r = D)) \<and>
      (\<forall>r\<in>set (rows_of (hospital e) (unit_id e) out).
          date_start \<le> o_date r \<and> o_date r \<le> date_end \<and>
          census r = count_present (group_dates (hospital e) (unit_id e) (xs @ ys)) (o_date r))"
proof -
  have a: "dt_date (admit_ts e) = Some A" using assms(1,3) by (simp add: dt_date_on_day)
  have b: "dt_date (discharge_ts e) = Some A" using assms(2,4) by (simp add: dt_date_on_day)
  have p: "\<And>d. (le_date (dt_date (admit_ts e)) d \<and> gt_date (dt_date (discharge_ts e)) d) = False"
    by (simp add: a b le_date_def gt_date_def)
  have ok: "\<not> compare_raises (with_dates (xs @ e # ys))"
    using assms(1,2) by (auto simp: compare_raises_with_dates)
  from census_contribution[OF p assms(5) ok, of beds_ref]
  show ?thesis by simp
qed

theorem single_day_stay_witness:
  "admit_ts ex_same_day = Some 1704110400000000000 \<and>
   discharge_ts ex_same_day = Some 1704135600000000000 \<and>
   on_day 1704110400000000000 19723 \<and> on_day 1704135600000000000 19723 \<and>
   (19723 :: int) \<le> 19725 \<and>
   (\<exists>out. compute_daily_true_occupancy ([] @ ex_same_day # []) ex_beds 19723 19725 = Inr out \<and>
      map o_date (rows_of ''General'' ''ICU'' out) = [19723, 19724, 19725] \<and>
      map census (rows_of ''General'' ''ICU'' out) = [0, 0, 0])"
proof -
  have a: "admit_ts ex_same_day = Some 1704110400000000000"
    and d: "discharge_ts ex_same_day = Some 1704135600000000000"
    by (simp_all add: ex_same_day_def)
  show ?thesis
    using single_day_stay[OF a d ex_on_day(3) ex_on_day(4), where xs = "[]" and ys = "[]"
        and beds_ref = ex_beds and date_start = 19723 and date_end = 19725]
      a d ex_on_day ex_compute_same_day
    by (simp add: rows_of_def)
qed




section \<open>Properties of the metrics and of the query\<close>

text \<open>
  C4, division by zero in the proxy ratio, at one encounter in a unit whose capacity record
  has no staffed bed: \<open>arrivals / baseline_staffed_beds\<close> is \<open>1 / 0\<close>, an infinity, which
  \<open>clip(upper=1.2)\<close> turns into the finite number \<open>1.2\<close>, not into an undefined value.
\<close>

theorem proxy_zero_beds:
  "occ_proxy [ex_encounter] ex_beds_zero =
     [\<lparr>a_hospital = ''General'', a_unit_id = ''ICU'', a_date = 19723, arrivals = 1,
       p_baseline_staffed_beds = Some 0, p_occ_proxy = Finite (12 / 10)\<rparr>]"
  by (simp add: occ_proxy_def ex_daily_arrivals merge_left_def ex_beds_zero_def arrivals_key_def
      truediv_def arrivals_row.extend_def)

text \<open>
  C8, admissions per day. For a non-empty encounter set the metric is the mean of the
  per-day admission counts over the calendar days with at least one admission (\<open>NaN\<close>, the
  mean of nothing, when no encounter has a valid admit timestamp), a calendar day being its
  24 hours and not a timestamp. The counts add up to the number of encounters with a valid
  admit timestamp, and a day is left out of the mean exactly when nothing was admitted on
  it: it is never counted as a zero.
\<close>

theorem admissions_per_day_mean:
  assumes "adm \<noteq> []"
  shows "admissions_per_day adm =
           (if admission_days adm = {} then NaN
            else Finite ((\<Sum>d\<in>admission_days adm. real (admissions_on adm d)) /
                         real (card (admission_days adm)))) \<and>
         (\<Sum>d\<in>admission_days adm. admissions_on adm d) = length (admit_dates adm) \<and>
         (\<forall>d. d \<notin> admission_days adm \<longleftrightarrow> admissions_on adm d = 0)"
proof -
  let ?ks = "admit_dates adm"
  have "(groupby_size ?ks = []) = (set (sort (remdups ?ks)) = {})"
    unfolding groupby_size_def map_is_Nil_conv by (simp only: set_empty)
  then have empty: "(groupby_size ?ks = []) = (admission_days adm = {})"
    by (simp add: admission_days_set)
  have sum: "sum_list (map (\<lambda>(d, n). real n) (groupby_size ?ks)) =
      (\<Sum>d\<in>admission_days adm. real (admissions_on adm d))"
    by (simp add: groupby_size_sum admission_days_set admit_dates_count)
  have len: "length (groupby_size ?ks) = card (admission_days adm)"
    by (simp add: groupby_size_length admission_days_set)
  have first: "admissions_per_day adm =
           (if admission_days adm = {} then NaN
            else Finite ((\<Sum>d\<in>admission_days adm. real (admissions_on adm d)) /
                         real (card (admission_days adm))))"
    using assms by (simp add: admissions_per_day_def series_mean_def empty sum len)
  have second: "(\<Sum>d\<in>admission_days adm. admissions_on adm d) = length (admit_dates adm)"
    using sum_counts_length[of ?ks] by (simp add: admission_days_set admit_dates_count)
  have third: "\<forall>d. d \<notin> admission_days adm \<longleftrightarrow> admissions_on adm d = 0"
    by (auto simp: admission_days_def)
  from first second third show ?thesis by blast
qed

theorem admissions_per_day_mean_witness:
  "[ex_encounter, ex_same_day, ex_later] \<noteq> [] \<and>
   admit_ts ex_encounter \<noteq> admit_ts ex_same_day \<and>
   admissions_on [ex_encounter, ex_same_day, ex_later] 19723 = 2 \<and>
   admissions_on [ex_encounter, ex_same_day, ex_later] 19724 = 0 \<and>
   admissions_on [ex_encounter, ex_same_day, ex_later] 19725 = 1 \<and>
   admissions_per_day [ex_encounter, ex_same_day, ex_later] = Finite (3 / 2) \<and>
   (\<Sum>d\<in>admission_days [ex_encounter, ex_same_day, ex_later].
       admissions_on [ex_encounter, ex_same_day, ex_later] d) = 3"
  using admissions_per_day_mean[of "[ex_encounter, ex_same_day, ex_later]"] ex_admissions_per_day
    ex_admissions_on
  by (simp add: admit_dates_def List.map_filter_simps ex_encounter_def ex_same_day_def ex_later_def
      dt_date_def ns_per_day_def)

text \<open>
  C9, the query filter. \<open>load_admissions\<close> returns exactly the stored rows that pass the
  filters as the specification words them, in stored order, with their timestamps parsed;
  \<open>"All"\<close> for the hospital or the unit selects what \<open>None\<close> selects; and a row passes or
  fails whatever its discharge timestamp is.
\<close>

theorem query_filter_semantics:
  "load_admissions sqlite_date to_datetime table date_from date_to hospital_arg unit_arg =
     map (coerce_ts to_datetime)
       (filter (passes_filters sqlite_date date_from date_to hospital_arg unit_arg) table) \<and>
   load_admissions sqlite_date to_datetime table date_from date_to (Some ''All'') unit_arg =
     load_admissions sqlite_date to_datetime table date_from date_to None unit_arg \<and>
   load_admissions sqlite_date to_datetime table date_from date_to hospital_arg (Some ''All'') =
     load_admissions sqlite_date to_datetime table date_from date_to hospital_arg None \<and>
   passes_filters sqlite_date date_from date_to hospital_arg unit_arg (r\<lparr>discharge_ts := x\<rparr>) =
     passes_filters sqlite_date date_from date_to hospital_arg unit_arg r"
proof -
  have a: "\<And>df dt h u. load_admissions sqlite_date to_datetime table df dt h u =
     map (coerce_ts to_datetime) (filter (passes_filters sqlite_date df dt h u) table)"
    by (simp add: load_admissions_def read_sql_def where_build_query)
  have b: "\<And>u. build_query date_from date_to (Some ''All'') u = build_query date_from date_to None u"
    by (simp add: build_query_def)
  have c: "\<And>h. build_query date_from date_to h (Some ''All'') = build_query date_from date_to h None"
    by (simp add: build_query_def)
  have d: "passes_filters sqlite_date date_from date_to hospital_arg unit_arg (r\<lparr>discharge_ts := x\<rparr>) =
     passes_filters sqlite_date date_from date_to hospital_arg unit_arg r"
    by (cases date_from; cases date_to) (simp_all add: passes_filters_def)
  show ?thesis
    using a d by (simp add: load_admissions_def b c)
qed

theorem query_filter_semantics_witness:
  "load_admissions ex_sqlite_date ex_to_datetime ex_table (Some 19723) (Some 19725)
     (Some ''All'') (Some ''ICU'') = [ex_encounter, ex_no_discharge] \<and>
   load_admissions ex_sqlite_date ex_to_datetime ex_table (Some 19724) (Some 19725) None None =
     [ex_later] \<and>
   filter (passes_filters ex_sqlite_date (Some 19724) (Some 19725) None None) ex_table =
     [\<lparr>encounter_id = ''E4'', patient_id = ''P4'', hospital = ''General'', unit_id = ''ED'',
       triage_level = Some 2, admit_ts = ''2024-01-03 08:00:00'',
       discharge_ts = ''2024-01-03 09:00:00'', wait_minutes = Some 35\<rparr>]"
  using query_filter_semantics[of ex_sqlite_date ex_to_datetime ex_table "Some 19724" "Some 19725" None None]
    ex_load_icu ex_load_day
  by (simp add: passes_filters_def ex_table_def ex_sqlite_date_def ex_to_datetime_def dt_date_def
      ns_per_day_def)

section \<open>The frame of the call\<close>

text \<open>
  C10, input preservation. Whatever the call returns, the frames at the references \<open>adm\<close>
  and \<open>beds_ref\<close> are after the call what they were before it, and so is every frame the
  store held before the call.
\<close>

theorem input_preservation:
  assumes "compute_daily_true_occupancy_on st adm beds_ref date_start date_end = (res, st')"
  shows "lookup st' adm = lookup st adm \<and> lookup st' beds_ref = lookup st beds_ref \<and>
         (\<forall>p < length st. lookup st' p = lookup st p)"
proof -
  have "\<exists>zs. st' = st @ zs"
  proof (cases "\<exists>rows cols bs. lookup st adm = Some (Adm rows cols) \<and> lookup st beds_ref = Some (Beds bs)")
    case True
    then obtain rows cols bs where "lookup st adm = Some (Adm rows cols)" "lookup st beds_ref = Some (Beds bs)"
      by blast
    from compute_on_frames[OF this, of date_start date_end] assms
    show ?thesis by (auto split: if_splits sum.splits)
  next
    case False
    from compute_on_other[OF this, of date_start date_end] assms show ?thesis by simp
  qed
  then obtain zs where st': "st' = st @ zs" by blast
  have keep: "\<And>p. p < length st \<Longrightarrow> lookup st' p = lookup st p"
    by (simp add: st' lookup_def nth_append)
  have ext: "\<And>p. lookup st p \<noteq> None \<Longrightarrow> lookup st' p = lookup st p"
    using keep by (simp add: lookup_def split: if_splits)
  have res: "\<And>p. lookup st p = None \<Longrightarrow> p = adm \<or> p = beds_ref \<Longrightarrow> st' = st"
  proof -
    fix p assume "lookup st p = None" and "p = adm \<or> p = beds_ref"
    then have "\<not> (\<exists>rows cols bs. lookup st adm = Some (Adm rows cols) \<and> lookup st beds_ref = Some (Beds bs))"
      by auto
    from compute_on_other[OF this, of date_start date_end] assms show "st' = st" by simp
  qed
  have a: "lookup st' adm = lookup st adm"
    using ext[of adm] res[of adm] by (cases "lookup st adm = None") auto
  have b: "lookup st' beds_ref = lookup st beds_ref"
    using ext[of beds_ref] res[of beds_ref] by (cases "lookup st beds_ref = None") auto
  from a b keep show ?thesis by blast
qed

theorem input_preservation_witness:
  "compute_daily_true_occupancy_on ex_store 0 1 19723 19725 =
     (Inr 4, ex_store @
        [Adm [ex_encounter] [(''admit_d'', [Some 19723]), (''discharge_d'', [Some 19725])],
         Census [\<lparr>c_hospital = ''General'', c_unit_id = ''ICU'', c_date = 19723, c_census = 1\<rparr>,
               \<lparr>c_hospital = ''General'', c_unit_id = ''ICU'', c_date = 19724, c_census = 1\<rparr>,
               \<lparr>c_hospital = ''General'', c_unit_id = ''ICU'', c_date = 19725, c_census = 0\<rparr>],
         Occupancy
         [\<lparr>o_hospital = ''General'', o_unit_id = ''ICU'', o_date = 19723, census = 1, staffed_beds = 2, occ_pct = Finite 50\<rparr>,
          \<lparr>o_hospital = ''General'', o_unit_id = ''ICU'', o_date = 19724, census = 1, staffed_beds = 2, occ_pct = Finite 50\<rparr>,
          \<lparr>o_hospital = ''General'', o_unit_id = ''ICU'', o_date = 19725, census = 0, staffed_beds = 2, occ_pct = Finite 0\<rparr>]]) \<and>
   lookup (snd (compute_daily_true_occupancy_on ex_store 0 1 19723 19725)) 0 = Some (Adm [ex_encounter] []) \<and>
   lookup (snd (compute_daily_true_occupancy_on ex_store 0 1 19723 19725)) 1 = Some (Beds ex_beds)"
  using input_preservation[OF ex_compute_on] ex_compute_on
  by (simp add: ex_store_def lookup_def)

end
